theory Spec2Isabelle
  imports Main "HOL-Library.Signed_Division"
begin

section \<open>Data model of the k-loop generator\<close>

text \<open>
  The embedding follows \<^verbatim>\<open>k_loop.cxx\<close> (\<^verbatim>\<open>Generator<hw>::kLoopSingle\<close> and
  \<^verbatim>\<open>Generator<hw>::kLoop\<close>). C++ \<^verbatim>\<open>int\<close> values are modelled as \<^typ>\<open>int\<close>;
  \<^verbatim>\<open>/\<close> and \<^verbatim>\<open>%\<close> on them truncate towards zero and are written \<open>sdiv\<close> and \<open>smod\<close>.
  Sums, differences and products of \<^verbatim>\<open>int\<close> values wrap around at 32 bits (two's complement, as
  the generator's host computes them): the value of an \<^verbatim>\<open>int\<close> expression built from \<^verbatim>\<open>+\<close>,
  \<^verbatim>\<open>-\<close> and \<^verbatim>\<open>*\<close> is \<open>int32\<close> of its value over the integers, which is what wrapping every
  single operation gives, these operations being compatible with congruence modulo \<open>2^32\<close>.
\<close>

definition int32 :: "int \<Rightarrow> int" where
  "int32 x = (x + 2147483648) mod 4294967296 - 2147483648"

text \<open>\<^verbatim>\<open>stub()\<close> throws; \<^verbatim>\<open>ngen::out_of_registers_exception\<close> is thrown when no register
  is left.\<close>

datatype error = Stub | OutOfRegisters

text \<open>A register handle; \<open>None\<close> is the invalid register (\<^verbatim>\<open>isInvalid()\<close>).\<close>

type_synonym GRF = "nat option"

text \<open>The members of \<^verbatim>\<open>HW\<close> named in the sources, in nGEN's order.\<close>

datatype HW = Gen10 | Gen11 | Gen12LP | XeHP | XeHPG | XeHPC

fun hw_rank :: "HW \<Rightarrow> nat" where
  "hw_rank Gen10 = 0"
| "hw_rank Gen11 = 1"
| "hw_rank Gen12LP = 2"
| "hw_rank XeHP = 3"
| "hw_rank XeHPG = 4"
| "hw_rank XeHPC = 5"

text \<open>The fields of \<^verbatim>\<open>GEMMProblem\<close>, \<^verbatim>\<open>GEMMStrategy\<close> and \<^verbatim>\<open>GEMMState\<close> read or written by
  the modelled parts of \<^verbatim>\<open>kLoop\<close>. Member functions without arguments (\<^verbatim>\<open>Ta.isInteger()\<close>,
  \<^verbatim>\<open>problem.needsASums()\<close>, \<^verbatim>\<open>strategy.registerOutput()\<close>, ...) are fields holding their value;
  \<open>aOffset_None\<close> is \<^verbatim>\<open>problem.aOffset == ABOffset::None\<close>; \<open>unrollM\<close>, \<open>unrollN\<close>, \<open>unrollK\<close>
  are \<^verbatim>\<open>strategy.unroll[LoopM]\<close>, \<^verbatim>\<open>[LoopN]\<close>, \<^verbatim>\<open>[LoopK]\<close>, and likewise \<open>namedBarriersM\<close>,
  \<open>namedBarriersN\<close>.\<close>

record GEMMProblem =
  Ta_isInteger :: bool
  Tb_isInteger :: bool
  needsASums :: bool
  needsBSums :: bool
  aOffset_None :: bool
  bOffset_None :: bool
  beta1 :: bool
  backward :: bool
  aoPtrDims :: int
  boPtrDims :: int
  aScale2D :: bool
  bScale2D :: bool
  needsAGroupSums :: bool
  needsBGroupSums :: bool
  aqGroupK :: int
  bqGroupK :: int

record GEMMStrategy =
  A_copies :: int
  B_copies :: int
  slmCopies :: int
  slmBuffers :: int
  ka_load :: int
  kb_load :: int
  ka_pfStride :: int
  kb_pfStride :: int
  ka_prefetch :: int
  kb_prefetch :: int
  kInterleaveChunk :: int
  slmA :: bool
  slmB :: bool
  unrollM :: int
  unrollN :: int
  unrollK :: int
  unrollKSLM :: int
  barrierFreq :: int
  namedBarriersM :: int
  namedBarriersN :: int
  kParallelLocal :: bool
  fusePostOps :: bool
  cLoadAhead :: bool
  registerOutput :: bool
  fuseBeta :: bool
  altFusedBeta :: bool
  prefetchA :: int
  prefetchB :: int
  prefetchC :: int
  prefetchABL3 :: int
  cooperativePF :: bool
  A_prefetch_isBlock2D :: bool
  B_prefetch_isBlock2D :: bool
  strictFence :: bool
  slmFenceWARWA :: bool
  splitBarrier :: bool
  activeThreads :: int

text \<open>The register allocator \<^verbatim>\<open>state.ra\<close> belongs to nGEN, outside the sources. It is modelled
  by the list \<open>ra_free\<close> of the registers it can still hand out: an allocation takes the first
  one, \<^verbatim>\<open>try_alloc\<close> returns the invalid register and \<^verbatim>\<open>alloc\<close> throws when the list is empty,
  a release puts the register back.\<close>

record GEMMState =
  ka_loadRem :: int
  kb_loadRem :: int
  kaq :: int
  kbq :: int
  kaqLate :: int
  kbqLate :: int
  lateScale2DA :: bool
  lateScale2DB :: bool
  r0_info_isARF :: bool
  isNested :: bool
  firstKLoopSegment :: bool
  k :: GRF
  K :: GRF
  C_accCount :: int
  C_buffers :: int
  remActiveA :: bool
  remActiveB :: bool
  remActiveSLM :: bool
  lastThresh :: int
  kSLMA :: GRF
  kSLMB :: GRF
  kSLMStorage :: GRF
  barrierHeader :: GRF
  barrierReady :: bool
  splitBarrierAlways :: bool
  kNoBarrierStart :: GRF
  kNoBarrierEnd :: GRF
  ra_free :: "nat list"

text \<open>The instruction stream. Direct nGEN instructions of \<^verbatim>\<open>kLoop\<close> are constructors; a
  call of an emission routine defined outside \<^verbatim>\<open>k_loop.cxx\<close> (\<^verbatim>\<open>zeroMatrix\<close>, \<^verbatim>\<open>storeMatrix\<close>,
  \<^verbatim>\<open>accumulateSum\<close>, \<^verbatim>\<open>wrdepRanges\<close>, \<^verbatim>\<open>gemmPrefetchC\<close>, ...) is one entry of the stream.
  \<open>Add_K_gt n\<close> is \<^verbatim>\<open>add(1 | gt | f0[0], state.K, state.K, n)\<close>, \<open>Add_K n\<close> is
  \<^verbatim>\<open>add(1, state.K, state.K, n)\<close>, and \<open>IncDecAddr x n\<close> is the call of \<^verbatim>\<open>incDecAddr\<close> that moves the
  SLM store addresses of the operand \<open>x\<close> (\<^verbatim>\<open>state.Ao_addrs\<close>, \<^verbatim>\<open>state.Bo_addrs\<close>) by \<open>n\<close> elements
  along k.\<close>

datatype operand = OpA | OpB

datatype regs_id = As_regs | Bs_regs | C_regs nat

datatype barrier_id = BarrierUnnamed | BarrierM | BarrierN

datatype KBarrierType = Normal | Signal | Wait

datatype instr =
    Mov_K_kInput
  | Mov_Acc_zero nat
  | ZeroMatrix regs_id
  | FusedBetaNotifyCompletion
  | SLMFence
  | FenceWait
  | BarrierHeader
  | BarrierMsg barrier_id
  | BarrierWait
  | SyncBar barrier_id
  | WrdepRanges operand
  | StoreMatrix operand
  | AccumulateSum operand
  | Add_K_gt int
  | Add_K int
  | IncDecAddr operand int
  | PrefetchC
  | InitL3Prefetch

text \<open>The phases \<^verbatim>\<open>LoopSequencer::PhaseWarmup\<close>, ... that \<^verbatim>\<open>NotifyPhase\<close> receives.\<close>

datatype ExecutionPhase =
    PhaseWarmup
  | PhaseMainLoop
  | PhaseMainPathEnd
  | PhaseCooldown
  | PhaseShortLoop
  | PhaseShortLoopEnd
  | PhaseRemainder






section \<open>Operations\<close>

subsection \<open>\<^verbatim>\<open>kLoopSingle\<close>\<close>

text \<open>
  \<^verbatim>\<open>kLoopSetup\<close> and \<^verbatim>\<open>kLoopTeardown\<close> are defined outside \<^verbatim>\<open>k_loop.cxx\<close>; together with
  \<^verbatim>\<open>kLoop\<close> they are parameters acting on the generator state \<open>'s\<close> (build state and
  instruction stream). Each may throw. The model logs which of the three were called.
\<close>

datatype call = CallSetup | CallKLoop | CallTeardown

definition kLoopSingle ::
  "('s \<Rightarrow> error + bool \<times> 's) \<Rightarrow> ('s \<Rightarrow> error + 's) \<Rightarrow> ('s \<Rightarrow> error + 's) \<Rightarrow> 's
     \<Rightarrow> call list \<times> (error + bool \<times> 's)" where
  "kLoopSingle kLoopSetup kLoop kLoopTeardown state =
     (case kLoopSetup state of
        Inl e \<Rightarrow> ([CallSetup], Inl e)
      | Inr (ok, s1) \<Rightarrow>
          if ok then
            (case kLoop s1 of
               Inl e \<Rightarrow> ([CallSetup, CallKLoop], Inl e)
             | Inr s2 \<Rightarrow>
                 (case kLoopTeardown s2 of
                    Inl e \<Rightarrow> ([CallSetup, CallKLoop, CallTeardown], Inl e)
                  | Inr s3 \<Rightarrow> ([CallSetup, CallKLoop, CallTeardown], Inr (ok, s3))))
          else ([CallSetup], Inr (ok, s1)))"

subsection \<open>Barrier configuration and the loop counter (lines 136--252)\<close>

definition needBarrier :: "GEMMStrategy \<Rightarrow> bool" where
  "needBarrier strategy = (slmA strategy \<or> slmB strategy \<or> barrierFreq strategy > 0)"

definition nbM :: "GEMMStrategy \<Rightarrow> bool" where
  "nbM strategy = ((slmA strategy \<or> barrierFreq strategy \<noteq> 0) \<and> namedBarriersM strategy \<noteq> 0)"

definition nbN :: "GEMMStrategy \<Rightarrow> bool" where
  "nbN strategy = ((slmB strategy \<or> barrierFreq strategy \<noteq> 0) \<and> namedBarriersN strategy \<noteq> 0)"

definition needUnnamedBarrier :: "GEMMStrategy \<Rightarrow> bool" where
  "needUnnamedBarrier strategy =
     ((slmA strategy \<and> \<not> nbM strategy) \<or> (slmB strategy \<and> \<not> nbN strategy)
      \<or> (barrierFreq strategy \<noteq> 0 \<and> \<not> nbM strategy \<and> \<not> nbN strategy))"

definition matchBarriers :: "GEMMStrategy \<Rightarrow> bool" where
  "matchBarriers strategy = (kParallelLocal strategy \<and> needUnnamedBarrier strategy)"

text \<open>Lines 141--143: a periodic barrier is a scheduled event of the loop (\<open>barrierTask\<close>) when
  it occurs at least once per \<^verbatim>\<open>unrollK\<close>, and else a loop of its own around the k loop
  (\<open>barrierSubloop\<close>).\<close>

definition noFinalBarrier :: "GEMMState \<Rightarrow> bool" where
  "noFinalBarrier state = (kNoBarrierStart state \<noteq> None \<or> kNoBarrierEnd state \<noteq> None)"

definition barrierTask :: "GEMMStrategy \<Rightarrow> GEMMState \<Rightarrow> bool" where
  "barrierTask strategy state =
     (barrierFreq strategy > 0 \<and> barrierFreq strategy \<le> unrollK strategy
      \<and> \<not> noFinalBarrier state)"

definition barrierSubloop :: "GEMMStrategy \<Rightarrow> GEMMState \<Rightarrow> bool" where
  "barrierSubloop strategy state = (barrierFreq strategy > 0 \<and> \<not> barrierTask strategy state)"

definition saveK :: "GEMMProblem \<Rightarrow> GEMMStrategy \<Rightarrow> GEMMState \<Rightarrow> bool" where
  "saveK problem strategy state =
     (isNested state \<or> matchBarriers strategy \<or> fusePostOps strategy
      \<or> (\<not> aOffset_None problem \<and> \<not> bOffset_None problem))"

text \<open>Lines 246--252: \<^verbatim>\<open>state.K\<close> is kept when the caller set it, else it is a fresh
  subregister initialised by a \<^verbatim>\<open>mov\<close> (gen_if \<^verbatim>\<open>saveK\<close>) or \<^verbatim>\<open>state.k\<close> itself.\<close>

definition kLoop_init_K ::
  "GEMMProblem \<Rightarrow> GEMMStrategy \<Rightarrow> GEMMState \<Rightarrow> instr list \<times> (error + GEMMState)" where
  "kLoop_init_K problem strategy state =
     (let incomingK = (K state \<noteq> None) in
      if incomingK then ([], Inr state)
      else if saveK problem strategy state then
        (case ra_free state of
           [] \<Rightarrow> ([], Inl OutOfRegisters)
         | r # rs \<Rightarrow> ([Mov_K_kInput], Inr (state\<lparr>K := Some r, ra_free := rs\<rparr>)))
      else ([], Inr (state\<lparr>K := k state\<rparr>)))"

text \<open>Lines 254--270: zeroing of the A/B sums and of C in the first k-loop segment.\<close>

definition kLoop_zero_init :: "GEMMProblem \<Rightarrow> GEMMStrategy \<Rightarrow> GEMMState \<Rightarrow> instr list" where
  "kLoop_zero_init problem strategy state =
     (if firstKLoopSegment state then
        (if needsASums problem then [ZeroMatrix As_regs] else []) @
        (if needsBSums problem then [ZeroMatrix Bs_regs] else []) @
        (if \<not> cLoadAhead strategy \<and> \<not> (registerOutput strategy \<and> beta1 problem) then
           map Mov_Acc_zero (filter even [0..<nat (C_accCount state)]) @
           map (\<lambda>buf. ZeroMatrix (C_regs buf)) [0..<nat (C_buffers state)]
         else []) @
        (if fuseBeta strategy \<and> \<not> altFusedBeta strategy then [FusedBetaNotifyCompletion] else [])
      else [])"

subsection \<open>Lookaheads (lines 275--305)\<close>

definition slmBufferLA :: "int \<Rightarrow> error + int" where
  "slmBufferLA n =
     (if n = 0 \<or> n = 1 then Inr 0
      else if n = 2 \<or> n = 3 then Inr 1
      else if n = 4 then Inr 2
      else Inl Stub)"

definition lookaheadALoad :: "GEMMStrategy \<Rightarrow> int" where
  "lookaheadALoad strategy = int32 (ka_load strategy * (A_copies strategy - 1))"

definition lookaheadBLoad :: "GEMMStrategy \<Rightarrow> int" where
  "lookaheadBLoad strategy = int32 (kb_load strategy * (B_copies strategy - 1))"

definition lookaheadALoadRem :: "GEMMStrategy \<Rightarrow> GEMMState \<Rightarrow> int" where
  "lookaheadALoadRem strategy state = int32 (ka_loadRem state * (A_copies strategy - 1))"

definition lookaheadBLoadRem :: "GEMMStrategy \<Rightarrow> GEMMState \<Rightarrow> int" where
  "lookaheadBLoadRem strategy state = int32 (kb_loadRem state * (B_copies strategy - 1))"



text \<open>The three \<^verbatim>\<open>stub()\<close> conditions of lines 292--296.\<close>

definition lookahead_incompatible :: "GEMMStrategy \<Rightarrow> GEMMState \<Rightarrow> bool" where
  "lookahead_incompatible strategy state =
     (slmA strategy \<and> slmB strategy \<and>
       (lookaheadALoad strategy \<noteq> lookaheadBLoad strategy
        \<or> lookaheadALoadRem strategy state \<noteq> lookaheadBLoadRem strategy state
        \<or> (ka_load strategy \<noteq> kb_load strategy
            \<and> lookaheadALoad strategy \<noteq> lookaheadALoadRem strategy state)))"




subsection \<open>Prefetch and outer-product events (lines 361--389 and 1033--1034)\<close>







subsection \<open>SLM store address increments (\<^verbatim>\<open>doSLMStoreInc\<close>, lines 647--662)\<close>

definition slmBuffer :: "GEMMStrategy \<Rightarrow> int \<Rightarrow> int" where
  "slmBuffer strategy h = (h sdiv unrollKSLM strategy) smod slmBuffers strategy"

definition kIncSLMStore :: "GEMMStrategy \<Rightarrow> int \<Rightarrow> int" where
  "kIncSLMStore strategy h =
     int32 ((if slmBuffer strategy h = int32 (slmBuffers strategy - 1)
             then int32 (- (slmBuffers strategy - 1)) else 1)
            * unrollKSLM strategy)"

text \<open>\<^verbatim>\<open>gemmAIncrement\<close> and \<^verbatim>\<open>gemmBIncrement\<close> with an \<^verbatim>\<open>int\<close> increment (lines 1567--1593 and
  their B counterpart), called on the SLM store addresses of the operand: nothing for an
  increment of 0, else a call of \<^verbatim>\<open>incDecAddr\<close> (defined outside the sources) with the increment
  converted to the units of the layout, the layout being one of those the function supports
  (it calls \<^verbatim>\<open>stub()\<close> for any other).\<close>

definition gemmIncrement :: "operand \<Rightarrow> int \<Rightarrow> instr list" where
  "gemmIncrement x k_inc = (if k_inc = 0 then [] else [IncDecAddr x k_inc])"

definition doSLMStoreInc :: "GEMMStrategy \<Rightarrow> int \<Rightarrow> instr list" where
  "doSLMStoreInc strategy h =
     (if slmA strategy then gemmIncrement OpA (kIncSLMStore strategy h) else []) @
     (if slmB strategy then gemmIncrement OpB (kIncSLMStore strategy h) else [])"

text \<open>The effect of the stream on the SLM store addresses, an address being the position along
  k, in elements, that the address registers of the operand point at (\<open>addrs OpA\<close> for
  \<^verbatim>\<open>state.Ao_addrs\<close>, \<open>addrs OpB\<close> for \<^verbatim>\<open>state.Bo_addrs\<close>): \<^verbatim>\<open>incDecAddr\<close> adds the increment, or
  subtracts it when \<^verbatim>\<open>problem.backward()\<close> holds; no other entry of the stream writes these
  registers.\<close>

fun exec_addr :: "bool \<Rightarrow> instr \<Rightarrow> (operand \<Rightarrow> int) \<Rightarrow> (operand \<Rightarrow> int)" where
  "exec_addr bw (IncDecAddr x n) addrs = addrs(x := addrs x + (if bw then - n else n))"
| "exec_addr bw i addrs = addrs"

definition run_addrs :: "bool \<Rightarrow> instr list \<Rightarrow> (operand \<Rightarrow> int) \<Rightarrow> (operand \<Rightarrow> int)" where
  "run_addrs bw xs addrs = fold (exec_addr bw) xs addrs"

text \<open>The increments emitted for the first \<open>n\<close> SLM store blocks, the \<open>i\<close>-th block being the one
  of iteration \<open>h = i * unrollKSLM\<close>.\<close>

definition slm_store_incs :: "GEMMStrategy \<Rightarrow> nat \<Rightarrow> instr list" where
  "slm_store_incs strategy n =
     concat (map (\<lambda>i. doSLMStoreInc strategy (int i * unrollKSLM strategy)) [0..<n])"

text \<open>Whether an operand is staged through SLM (\<^verbatim>\<open>slmA\<close>, \<^verbatim>\<open>slmB\<close>).\<close>

definition uses_slm :: "GEMMStrategy \<Rightarrow> operand \<Rightarrow> bool" where
  "uses_slm strategy x = (case x of OpA \<Rightarrow> slmA strategy | OpB \<Rightarrow> slmB strategy)"

subsection \<open>Choice of the operand to prezero and to remask (lines 504--514, 794--808)\<close>

text \<open>\<^verbatim>\<open>readA\<close> and \<^verbatim>\<open>readB\<close> are the constant \<^verbatim>\<open>true\<close> in \<^verbatim>\<open>kLoop\<close>. \<open>minOPCount\<close> is the value of
  \<^verbatim>\<open>minOuterProductCount(hw, problem, strategy)\<close>, \<open>needsRemaskA\<close> and \<open>needsRemaskB\<close> those of
  the two calls of \<^verbatim>\<open>needsRemask\<close>; both functions are defined outside \<^verbatim>\<open>k_loop.cxx\<close>.\<close>

definition readA :: bool where "readA = True"

definition readB :: bool where "readB = True"

definition prezeroRem :: "GEMMProblem \<Rightarrow> GEMMStrategy \<Rightarrow> GEMMState \<Rightarrow> int \<Rightarrow> bool \<times> bool" where
  "prezeroRem problem strategy state minOPCount =
     (let prezeroARem = (\<not> slmA strategy \<and> ka_loadRem state < minOPCount \<and> readA);
          prezeroBRem = (\<not> slmB strategy \<and> kb_loadRem state < minOPCount \<and> readB)
      in if prezeroARem \<and> prezeroBRem \<and> Ta_isInteger problem \<and> Tb_isInteger problem
            \<and> \<not> needsASums problem \<and> \<not> needsBSums problem
         then (if unrollM strategy \<ge> unrollN strategy then (False, prezeroBRem)
               else (prezeroARem, False))
         else (prezeroARem, prezeroBRem))"

definition remaskAB ::
  "GEMMProblem \<Rightarrow> GEMMStrategy \<Rightarrow> int \<Rightarrow> bool \<Rightarrow> bool \<Rightarrow> bool \<times> bool" where
  "remaskAB problem strategy minOPCount needsRemaskA needsRemaskB =
     (let remaskA = (\<not> slmA strategy \<and> readA \<and> minOPCount > 1 \<and> needsRemaskA);
          remaskB = (\<not> slmB strategy \<and> readB \<and> minOPCount > 1 \<and> needsRemaskB)
      in if Ta_isInteger problem \<and> Tb_isInteger problem
            \<and> \<not> needsASums problem \<and> \<not> needsBSums problem
         then (if remaskA \<and> remaskB
               then (if unrollM strategy \<ge> unrollN strategy then (False, remaskB)
                     else (remaskA, False))
               else if slmA strategy \<or> slmB strategy then (False, False)
               else (remaskA, remaskB))
         else (remaskA, remaskB))"

subsection \<open>Quantization parameter periods (lines 88--120, 394)\<close>

definition slmDequantize2DA :: "GEMMProblem \<Rightarrow> GEMMStrategy \<Rightarrow> GEMMState \<Rightarrow> bool" where
  "slmDequantize2DA problem strategy state =
     (let ao2D = (aoPtrDims problem = 2); as2D = aScale2D problem;
          ao2DLate = (ao2D \<and> needsBGroupSums problem);
          as2DLate = (as2D \<and> lateScale2DA state);
          dequantize2DA = ((ao2D \<and> \<not> ao2DLate) \<or> (as2D \<and> \<not> as2DLate))
      in dequantize2DA \<and> slmA strategy)"

definition slmDequantize2DB :: "GEMMProblem \<Rightarrow> GEMMStrategy \<Rightarrow> GEMMState \<Rightarrow> bool" where
  "slmDequantize2DB problem strategy state =
     (let bo2D = (boPtrDims problem = 2); bs2D = bScale2D problem;
          bo2DLate = (bo2D \<and> needsAGroupSums problem);
          bs2DLate = (bs2D \<and> lateScale2DB state);
          dequantize2DB = ((bo2D \<and> \<not> bo2DLate) \<or> (bs2D \<and> \<not> bs2DLate))
      in dequantize2DB \<and> slmB strategy)"

definition kaq_load :: "GEMMProblem \<Rightarrow> GEMMStrategy \<Rightarrow> GEMMState \<Rightarrow> int" where
  "kaq_load problem strategy state =
     (if kInterleaveChunk strategy \<noteq> 0
      then min (int32 (aqGroupK problem * kaq state)) (kInterleaveChunk strategy)
      else int32 (aqGroupK problem * kaq state))"

definition kbq_load :: "GEMMProblem \<Rightarrow> GEMMStrategy \<Rightarrow> GEMMState \<Rightarrow> int" where
  "kbq_load problem strategy state =
     (if kInterleaveChunk strategy \<noteq> 0
      then min (int32 (bqGroupK problem * kbq state)) (kInterleaveChunk strategy)
      else int32 (bqGroupK problem * kbq state))"

subsection \<open>\<^verbatim>\<open>kLoop\<close> up to the unroll check of line 1313\<close>

text \<open>
  Everything \<^verbatim>\<open>kLoop\<close> does before \<^verbatim>\<open>ls.materialize()\<close> that emits an instruction or can throw:
  the \<^verbatim>\<open>stub()\<close> calls of lines 157 and 189 (\<open>kLoop_entry_stub\<close>), the loop counter and the
  zeroing, and then
  the \<^verbatim>\<open>stub()\<close> calls of lines 282, 293--295, 394, 816 and 1313 (\<open>kLoop_schedule_checks\<close>).
  The calls of \<^verbatim>\<open>ls.schedule\<close> in between, and those made by \<^verbatim>\<open>gemmScheduleL3Prefetches\<close> and
  \<^verbatim>\<open>gemmScheduleL3PrefetchIncs\<close>, register callbacks and emit nothing.
  \<open>analysis\<close> is what \<^verbatim>\<open>ls.analyze(); ls.getUnroll()\<close> gives (the loop sequencer is outside the
  sources): the unroll it computed, or the error it threw. The result is the instruction
  stream emitted so far with either the exception or the build state.
\<close>

definition kLoop_entry_stub :: "GEMMStrategy \<Rightarrow> GEMMState \<Rightarrow> bool" where
  "kLoop_entry_stub strategy state =
     ((needBarrier strategy \<and> r0_info_isARF state)
      \<or> (slmA strategy \<and> slmB strategy \<and> nbM strategy \<noteq> nbN strategy))"

definition kLoop_schedule_checks ::
  "GEMMProblem \<Rightarrow> GEMMStrategy \<Rightarrow> GEMMState \<Rightarrow> int \<Rightarrow> bool \<Rightarrow> bool \<Rightarrow> error + int
     \<Rightarrow> error option" where
  "kLoop_schedule_checks problem strategy state minOPCount needsRemaskA needsRemaskB analysis =
     (case slmBufferLA (slmBuffers strategy) of
        Inl e \<Rightarrow> Some e
      | Inr la \<Rightarrow>
          if lookahead_incompatible strategy state then Some Stub
          else if slmDequantize2DA problem strategy state
                 \<and> slmDequantize2DB problem strategy state
                 \<and> kaq_load problem strategy state \<noteq> kbq_load problem strategy state
          then Some Stub
          else if (fst (remaskAB problem strategy minOPCount needsRemaskA needsRemaskB)
                   \<or> snd (remaskAB problem strategy minOPCount needsRemaskA needsRemaskB))
                 \<and> backward problem
          then Some Stub
          else
            (case analysis of
               Inl e \<Rightarrow> Some e
             | Inr u \<Rightarrow> if u \<noteq> unrollK strategy then Some Stub else None))"

definition kLoop_prefix ::
  "GEMMProblem \<Rightarrow> GEMMStrategy \<Rightarrow> GEMMState \<Rightarrow> int \<Rightarrow> bool \<Rightarrow> bool \<Rightarrow> error + int
     \<Rightarrow> instr list \<times> (error + GEMMState)" where
  "kLoop_prefix problem strategy state0 minOPCount needsRemaskA needsRemaskB analysis =
     (let state = state0\<lparr>lastThresh := 0\<rparr> in
      if kLoop_entry_stub strategy state then ([], Inl Stub)
      else
        (case kLoop_init_K problem strategy state of
           (i1, Inl e) \<Rightarrow> (i1, Inl e)
         | (i1, Inr state1) \<Rightarrow>
             (i1 @ kLoop_zero_init problem strategy state1,
              case kLoop_schedule_checks problem strategy state1 minOPCount needsRemaskA
                     needsRemaskB analysis of
                Some e \<Rightarrow> Inl e
              | None \<Rightarrow> Inr state1)))"

text \<open>The instructions of lines 248--270, which precede the loop sequence.\<close>

fun preamble_instr :: "instr \<Rightarrow> bool" where
  "preamble_instr Mov_K_kInput = True"
| "preamble_instr (Mov_Acc_zero i) = True"
| "preamble_instr (ZeroMatrix r) = True"
| "preamble_instr FusedBetaNotifyCompletion = True"
| "preamble_instr i = False"

subsection \<open>Emission with build state and exceptions\<close>

text \<open>A step of code generation takes the build state and gives the instructions it emitted
  together with the exception it threw or the new build state.\<close>

type_synonym gen = "GEMMState \<Rightarrow> instr list \<times> (error + GEMMState)"

definition emit :: "instr list \<Rightarrow> gen" where
  "emit xs state = (xs, Inr state)"

definition throw :: "error \<Rightarrow> gen" where
  "throw e state = ([], Inl e)"

definition andThen :: "gen \<Rightarrow> gen \<Rightarrow> gen" where
  "andThen f g state =
     (case f state of
        (xs, Inl e) \<Rightarrow> (xs, Inl e)
      | (xs, Inr s1) \<Rightarrow> (case g s1 of (ys, r) \<Rightarrow> (xs @ ys, r)))"

definition gen_if :: "bool \<Rightarrow> gen \<Rightarrow> gen" where
  "gen_if b f = (if b then f else emit [])"

subsection \<open>Barriers and SLM fences (lines 161--229, 1880--1903)\<close>

definition getFenceTemp :: "GEMMState \<Rightarrow> error + GRF \<times> GEMMState" where
  "getFenceTemp state =
     (case ra_free state of
        r # rs \<Rightarrow> Inr (Some r, state\<lparr>ra_free := rs\<rparr>)
      | [] \<Rightarrow>
          if barrierHeader state \<noteq> None
          then Inr (barrierHeader state, state\<lparr>barrierReady := False\<rparr>)
          else Inl OutOfRegisters)"

definition releaseFenceTemp :: "GRF \<Rightarrow> GEMMState \<Rightarrow> GEMMState" where
  "releaseFenceTemp temp state =
     (case temp of
        None \<Rightarrow> state
      | Some r \<Rightarrow>
          if temp \<noteq> barrierHeader state then state\<lparr>ra_free := r # ra_free state\<rparr> else state)"

definition slmFenceIssue :: gen where
  "slmFenceIssue state =
     (case getFenceTemp state of
        Inl e \<Rightarrow> ([], Inl e)
      | Inr (temp, s1) \<Rightarrow> ([SLMFence], Inr (releaseFenceTemp temp s1)))"

text \<open>The sequence \<^verbatim>\<open>temp = getFenceTemp(); slmfence(...); fencewait(); releaseFenceTemp(temp)\<close>
  of \<^verbatim>\<open>kLoopBarrier\<close>.\<close>

definition slmFenceWait :: gen where
  "slmFenceWait state =
     (case getFenceTemp state of
        Inl e \<Rightarrow> ([], Inl e)
      | Inr (temp, s1) \<Rightarrow> ([SLMFence, FenceWait], Inr (releaseFenceTemp temp s1)))"

definition kLoopAllocBarrierHeader :: "GEMMState \<Rightarrow> error + GEMMState" where
  "kLoopAllocBarrierHeader state =
     (if barrierHeader state = None then
        (case ra_free state of
           [] \<Rightarrow> Inl OutOfRegisters
         | r # rs \<Rightarrow> Inr (state\<lparr>barrierHeader := Some r, barrierReady := False, ra_free := rs\<rparr>))
      else Inr state)"

text \<open>\<^verbatim>\<open>kLoopGetBarrierHeader\<close>; both forms of the \<^verbatim>\<open>barrierheader\<close> instruction are the entry
  \<open>BarrierHeader\<close> of the stream.\<close>

definition kLoopGetBarrierHeader :: gen where
  "kLoopGetBarrierHeader state =
     (case kLoopAllocBarrierHeader state of
        Inl e \<Rightarrow> ([], Inl e)
      | Inr s1 \<Rightarrow>
          if \<not> barrierReady s1 then
            (if r0_info_isARF s1 then ([], Inl Stub)
             else ([BarrierHeader], Inr (s1\<lparr>barrierReady := True\<rparr>)))
          else ([], Inr s1))"

text \<open>The branch of \<^verbatim>\<open>kLoopBarrier\<close> that signals the unnamed barrier (lines 200--210).\<close>

definition kLoopBarrier_signal_unnamed :: "bool \<Rightarrow> gen" where
  "kLoopBarrier_signal_unnamed withSLMFence state =
     (case kLoopAllocBarrierHeader state of
        Inl e \<Rightarrow> ([], Inl e)
      | Inr s1 \<Rightarrow>
          (case getFenceTemp s1 of
             Inl e \<Rightarrow> ([], Inl e)
           | Inr (temp, s2) \<Rightarrow>
               andThen (gen_if withSLMFence (emit [SLMFence, FenceWait]))
                 (andThen kLoopGetBarrierHeader
                    (andThen (emit [BarrierMsg BarrierUnnamed])
                       (\<lambda>s. ([], Inr (releaseFenceTemp temp s))))) s2))"

definition kLoopBarrier :: "GEMMStrategy \<Rightarrow> bool \<Rightarrow> KBarrierType \<Rightarrow> gen" where
  "kLoopBarrier strategy withSLMFence type =
     andThen (gen_if (withSLMFence \<and> type = Wait) slmFenceWait)
       (if \<not> nbM strategy \<and> \<not> nbN strategy then
          andThen (gen_if (type \<noteq> Wait) (kLoopBarrier_signal_unnamed withSLMFence))
            (gen_if (type \<noteq> Signal) (emit [BarrierWait]))
        else
          andThen
            (gen_if (type \<noteq> Wait)
               (andThen (gen_if withSLMFence slmFenceWait)
                  (andThen (gen_if (nbM strategy) (emit [BarrierMsg BarrierM]))
                     (gen_if (nbN strategy) (emit [BarrierMsg BarrierN])))))
            (gen_if (type \<noteq> Signal)
               (andThen (gen_if (nbM strategy) (emit [SyncBar BarrierM]))
                  (gen_if (nbN strategy) (emit [SyncBar BarrierN])))))"

subsection \<open>SLM stores and their synchronization (lines 1175--1268)\<close>

definition slm1x2xFencedBarrier :: "HW \<Rightarrow> GEMMStrategy \<Rightarrow> gen" where
  "slm1x2xFencedBarrier hw strategy =
     (if hw_rank hw < hw_rank XeHPG \<and> \<not> strictFence strategy
      then kLoopBarrier strategy False Normal
      else if (A_copies strategy > 2 \<or> B_copies strategy > 2) \<and> \<not> slmFenceWARWA strategy
      then kLoopBarrier strategy True Normal
      else
        andThen (gen_if (slmA strategy \<and> A_copies strategy > 1) (emit [WrdepRanges OpA]))
          (andThen (gen_if (slmB strategy \<and> B_copies strategy > 1) (emit [WrdepRanges OpB]))
             (kLoopBarrier strategy False Normal)))"

text \<open>The stores of \<^verbatim>\<open>doSLMStore\<close> and the sums accumulated from the stored registers (lines
  1240--1246).\<close>

definition slmStoreBlock :: "GEMMStrategy \<Rightarrow> bool \<Rightarrow> bool \<Rightarrow> instr list" where
  "slmStoreBlock strategy slmASums slmBSums =
     (if slmA strategy then [StoreMatrix OpA] else []) @
     (if slmB strategy then [StoreMatrix OpB] else []) @
     (if slmASums then [AccumulateSum OpA] else []) @
     (if slmBSums then [AccumulateSum OpB] else [])"

text \<open>\<open>slmASums\<close> and \<open>slmBSums\<close> are the locals of \<^verbatim>\<open>kLoop\<close> holding \<^verbatim>\<open>state.slmASums\<close> and
  \<^verbatim>\<open>state.slmBSums\<close> as they were on entry.\<close>

definition doSLMStore :: "HW \<Rightarrow> GEMMStrategy \<Rightarrow> bool \<Rightarrow> bool \<Rightarrow> gen" where
  "doSLMStore hw strategy slmASums slmBSums =
     (if \<not> slmA strategy \<and> \<not> slmB strategy then emit []
      else
        andThen
          (if slmBuffers strategy = 1 then slm1x2xFencedBarrier hw strategy
           else if slmBuffers strategy = 2 \<or> slmBuffers strategy = 3 \<or> slmBuffers strategy = 4
           then emit []
           else throw Stub)
          (andThen (emit (slmStoreBlock strategy slmASums slmBSums))
             (if slmBuffers strategy = 1 then kLoopBarrier strategy True Normal
              else if slmBuffers strategy = 2 then andThen slmFenceIssue (emit [FenceWait])
              else if slmBuffers strategy = 3 then
                andThen
                  (gen_if (slmFenceWARWA strategy)
                     (andThen
                        (gen_if (slmA strategy \<and> A_copies strategy > 1) (emit [WrdepRanges OpA]))
                        (gen_if (slmB strategy \<and> B_copies strategy > 1) (emit [WrdepRanges OpB]))))
                  (kLoopBarrier strategy True Signal)
              else if slmBuffers strategy = 4 then emit []
              else throw Stub)))"

text \<open>Reading the stream: the barrier instructions that make a thread wait for the others, the
  instructions strictly between the first two stores of an operand, and those before the
  first.\<close>

fun is_barrier_wait :: "instr \<Rightarrow> bool" where
  "is_barrier_wait BarrierWait = True"
| "is_barrier_wait (SyncBar b) = True"
| "is_barrier_wait i = False"

definition barrier_waits :: "instr list \<Rightarrow> nat" where
  "barrier_waits xs = length (filter is_barrier_wait xs)"

definition before_store :: "operand \<Rightarrow> instr list \<Rightarrow> instr list" where
  "before_store x xs = takeWhile (\<lambda>i. i \<noteq> StoreMatrix x) xs"

definition between_stores :: "operand \<Rightarrow> instr list \<Rightarrow> instr list" where
  "between_stores x xs =
     takeWhile (\<lambda>i. i \<noteq> StoreMatrix x) (tl (dropWhile (\<lambda>i. i \<noteq> StoreMatrix x) xs))"

text \<open>A piece of the stream that holds \<open>n\<close> barrier waits and no store.\<close>

definition sync_only :: "nat \<Rightarrow> instr list \<Rightarrow> bool" where
  "sync_only n xs = (barrier_waits xs = n \<and> (\<forall>x. StoreMatrix x \<notin> set xs))"

text \<open>The number of waits of one full barrier of the configuration: one \<^verbatim>\<open>barrierwait\<close>, or one
  \<^verbatim>\<open>sync.bar\<close> for each named barrier in use.\<close>

definition waits_per_barrier :: "GEMMStrategy \<Rightarrow> nat" where
  "waits_per_barrier strategy =
     (if \<not> nbM strategy \<and> \<not> nbN strategy then 1
      else (if nbM strategy then 1 else 0) + (if nbN strategy then 1 else 0))"

subsection \<open>The \<^verbatim>\<open>NotifyPhase\<close> callback on entering the short loop (lines 1341--1349, 1474--1485)\<close>

text \<open>The locals of \<^verbatim>\<open>kLoop\<close> that the callbacks capture by reference and that are not part of
  \<^verbatim>\<open>state\<close>.\<close>

record kLoop_locals =
  curPhase :: ExecutionPhase
  haveA_lastRSWA :: bool
  didForceActivateRemA :: bool
  didForceActivateRemB :: bool

text \<open>The emission routines called here and defined outside \<^verbatim>\<open>k_loop.cxx\<close>; they take the build
  state by reference. \<open>setupTeardownRemask i setup\<close> stands for
  \<^verbatim>\<open>setupTeardownRemask(T, i, setup, remaskPeriod, state.K, strategy, state)\<close>.\<close>

record kLoop_externals =
  gemmPrefetchC :: gen
  gemmInitL3Prefetch :: gen
  setupTeardownRemask :: "int \<Rightarrow> bool \<Rightarrow> gen"

definition resetKSLM :: "GEMMState \<Rightarrow> GEMMState" where
  "resetKSLM state =
     (case kSLMStorage state of
        None \<Rightarrow> state
      | Some r \<Rightarrow> state\<lparr>ra_free := r # ra_free state, kSLMStorage := None\<rparr>)
     \<lparr>kSLMA := None, kSLMB := None\<rparr>"

definition safeRelease_barrierHeader :: "GEMMState \<Rightarrow> GEMMState" where
  "safeRelease_barrierHeader state =
     (case barrierHeader state of
        None \<Rightarrow> state
      | Some r \<Rightarrow> state\<lparr>ra_free := r # ra_free state, barrierHeader := None\<rparr>)"

text \<open>Lines 810--814 and 840--845. \<open>sameBits\<close> is \<^verbatim>\<open>Ta_remask.bits() == Tb_remask.bits()\<close>;
  \<^verbatim>\<open>iremaskA\<close> is 0.\<close>

definition iremaskB :: "bool \<Rightarrow> bool \<Rightarrow> bool \<Rightarrow> int" where
  "iremaskB remaskA remaskB sameBits = (if remaskA \<and> remaskB \<and> sameBits then 0 else 1)"

definition teardownRemasks :: "kLoop_externals \<Rightarrow> bool \<Rightarrow> bool \<Rightarrow> bool \<Rightarrow> gen" where
  "teardownRemasks ext remaskA remaskB sameBits =
     andThen (gen_if remaskA (setupTeardownRemask ext 0 False))
       (gen_if (remaskB \<and> iremaskB remaskA remaskB sameBits \<noteq> 0)
          (setupTeardownRemask ext (iremaskB remaskA remaskB sameBits) False))"

text \<open>\<^verbatim>\<open>resetForNewLoop\<close>: its writes to the build state, and its writes to the locals.\<close>

definition resetForNewLoop :: "kLoop_externals \<Rightarrow> bool \<Rightarrow> bool \<Rightarrow> bool \<Rightarrow> gen" where
  "resetForNewLoop ext remaskA remaskB sameBits =
     andThen (\<lambda>state. ([], Inr (safeRelease_barrierHeader ((resetKSLM state)\<lparr>lastThresh := 0\<rparr>))))
       (teardownRemasks ext remaskA remaskB sameBits)"

definition resetForNewLoop_locals :: "kLoop_locals \<Rightarrow> kLoop_locals" where
  "resetForNewLoop_locals locals =
     locals\<lparr>haveA_lastRSWA := False, didForceActivateRemA := False,
       didForceActivateRemB := False\<rparr>"

text \<open>\<^verbatim>\<open>case LoopSequencer::PhaseShortLoop\<close> up to and including \<^verbatim>\<open>state = statePreLoop\<close>.\<close>

definition shortLoop_restore ::
  "kLoop_externals \<Rightarrow> GEMMStrategy \<Rightarrow> bool \<Rightarrow> bool \<Rightarrow> bool \<Rightarrow> GEMMState \<Rightarrow> gen" where
  "shortLoop_restore ext strategy remaskA remaskB sameBits statePreLoop =
     andThen (gen_if (prefetchC strategy > 0) (gemmPrefetchC ext))
       (andThen (gen_if (prefetchABL3 strategy \<noteq> 0) (gemmInitL3Prefetch ext))
          (andThen
             (\<lambda>state. ([], Inr (state\<lparr>remActiveA := False, remActiveB := False,
                                      remActiveSLM := False\<rparr>)))
             (andThen (resetForNewLoop ext remaskA remaskB sameBits)
                (\<lambda>state. ([], Inr statePreLoop)))))"

text \<open>The whole case: \<^verbatim>\<open>curPhase = phase\<close>, the restoration, and the signal of the split
  barrier.\<close>

definition notifyPhase_ShortLoop ::
  "kLoop_externals \<Rightarrow> GEMMStrategy \<Rightarrow> bool \<Rightarrow> bool \<Rightarrow> bool \<Rightarrow> GEMMState
     \<Rightarrow> kLoop_locals \<times> GEMMState \<Rightarrow> instr list \<times> (error + kLoop_locals \<times> GEMMState)" where
  "notifyPhase_ShortLoop ext strategy remaskA remaskB sameBits statePreLoop cur =
     (case andThen (shortLoop_restore ext strategy remaskA remaskB sameBits statePreLoop)
             (\<lambda>state. gen_if (splitBarrierAlways state \<and> barrierFreq strategy > 0
                                \<and> splitBarrier strategy)
                         (kLoopBarrier strategy False Signal) state) (snd cur) of
        (xs, Inl e) \<Rightarrow> (xs, Inl e)
      | (xs, Inr state') \<Rightarrow>
          (xs, Inr (resetForNewLoop_locals ((fst cur)\<lparr>curPhase := PhaseShortLoop\<rparr>), state')))"

subsection \<open>The periodic barrier (lines 1286--1300)\<close>

text \<open>The action of the event \<^verbatim>\<open>reqBarrier\<close>, which is scheduled when \<open>barrierTask\<close> holds.\<close>

definition doPeriodicBarrier :: "GEMMStrategy \<Rightarrow> kLoop_locals \<Rightarrow> gen" where
  "doPeriodicBarrier strategy locals =
     gen_if (curPhase locals = PhaseMainLoop)
       (if splitBarrier strategy
        then andThen (kLoopBarrier strategy False Wait) (kLoopBarrier strategy False Signal)
        else kLoopBarrier strategy False Normal)"

subsection \<open>From the snapshot of the build state to the loop (lines 1303--1332)\<close>

text \<open>
  \<^verbatim>\<open>kLoop\<close> copies the build state into \<^verbatim>\<open>statePreLoop\<close> (line 1304) and then allocates, in the
  build state, the subregisters \<^verbatim>\<open>outerK\<close>, \<^verbatim>\<open>l3PFPeelK\<close> and \<^verbatim>\<open>pfCPeelK\<close> that the loop hooks
  use. \<^verbatim>\<open>alloc_sub\<close> throws when no register is left. \<open>peelLoops\<close> is the value of
  \<^verbatim>\<open>div_up(std::max(0, strategy.prefetchC - ls.getCooldown()), unrollK)\<close>; \<^verbatim>\<open>div_up\<close> and the loop
  sequencer are defined outside the sources.
\<close>

definition alloc_sub :: "GEMMState \<Rightarrow> error + GRF \<times> GEMMState" where
  "alloc_sub state =
     (case ra_free state of
        [] \<Rightarrow> Inl OutOfRegisters
      | r # rs \<Rightarrow> Inr (Some r, state\<lparr>ra_free := rs\<rparr>))"

definition prefetchCPeelLoops :: "GEMMStrategy \<Rightarrow> int \<Rightarrow> int" where
  "prefetchCPeelLoops strategy peelLoops = (if prefetchC strategy > 0 then peelLoops else - 1)"

record peel_registers =
  outerK :: GRF
  l3PFPeelK :: GRF
  pfCPeelK :: GRF

definition alloc_if :: "bool \<Rightarrow> GEMMState \<Rightarrow> error + GRF \<times> GEMMState" where
  "alloc_if b state = (if b then alloc_sub state else Inr (None, state))"

definition kLoop_peel_alloc ::
  "GEMMStrategy \<Rightarrow> int \<Rightarrow> GEMMState \<Rightarrow> error + peel_registers \<times> GEMMState" where
  "kLoop_peel_alloc strategy peelLoops state =
     (case alloc_if (barrierSubloop strategy state) state of
        Inl e \<Rightarrow> Inl e
      | Inr (r1, s1) \<Rightarrow>
          (case alloc_if (prefetchABL3 strategy \<noteq> 0) s1 of
             Inl e \<Rightarrow> Inl e
           | Inr (r2, s2) \<Rightarrow>
               (case alloc_if (prefetchCPeelLoops strategy peelLoops > 0) s2 of
                  Inl e \<Rightarrow> Inl e
                | Inr (r3, s3) \<Rightarrow>
                    Inr (\<lparr>outerK = r1, l3PFPeelK = r2, pfCPeelK = r3\<rparr>, s3))))"

text \<open>\<^verbatim>\<open>kLoop\<close> from its entry to line 1332: the snapshot \<^verbatim>\<open>statePreLoop\<close> is the build state
  that \<open>kLoop_prefix\<close> leaves (the checks of lines 1311--1313 do not write it), and the build
  state goes on with the allocations. The result holds the snapshot, the registers and the
  build state.\<close>

definition kLoop_snapshot ::
  "GEMMProblem \<Rightarrow> GEMMStrategy \<Rightarrow> GEMMState \<Rightarrow> int \<Rightarrow> bool \<Rightarrow> bool \<Rightarrow> error + int \<Rightarrow> int
     \<Rightarrow> instr list \<times> (error + GEMMState \<times> peel_registers \<times> GEMMState)" where
  "kLoop_snapshot problem strategy state0 minOPCount needsRemaskA needsRemaskB analysis peelLoops =
     (case kLoop_prefix problem strategy state0 minOPCount needsRemaskA needsRemaskB analysis of
        (xs, Inl e) \<Rightarrow> (xs, Inl e)
      | (xs, Inr state) \<Rightarrow>
          (let statePreLoop = state
           in case kLoop_peel_alloc strategy peelLoops state of
                Inl e \<Rightarrow> (xs, Inl e)
              | Inr (regs, state1) \<Rightarrow> (xs, Inr (statePreLoop, regs, state1))))"

text \<open>The number of registers these allocations take.\<close>

definition peel_count :: "GEMMStrategy \<Rightarrow> int \<Rightarrow> GEMMState \<Rightarrow> nat" where
  "peel_count strategy peelLoops state =
     (if barrierSubloop strategy state then 1 else 0)
     + (if prefetchABL3 strategy \<noteq> 0 then 1 else 0)
     + (if prefetchCPeelLoops strategy peelLoops > 0 then 1 else 0)"

subsection \<open>The loop check (lines 605--645) and the \<^verbatim>\<open>OffsetCounter\<close> hook (lines 1352--1354)\<close>















subsection \<open>The outer-product event (lines 310, 342, 1033--1058)\<close>













subsection \<open>Example configurations\<close>

text \<open>An integer GEMM without SLM, two register copies of A and B, and a four-deep outer product;
  and a variant staging both operands through one SLM buffer.\<close>

definition problem_ex :: GEMMProblem where
  "problem_ex = \<lparr>Ta_isInteger = True, Tb_isInteger = True, needsASums = False,
     needsBSums = False, aOffset_None = True, bOffset_None = True, beta1 = False,
     backward = False, aoPtrDims = 0, boPtrDims = 0, aScale2D = False, bScale2D = False,
     needsAGroupSums = False, needsBGroupSums = False, aqGroupK = 0, bqGroupK = 0\<rparr>"

definition strategy_ex :: GEMMStrategy where
  "strategy_ex = \<lparr>A_copies = 2, B_copies = 2, slmCopies = 1, slmBuffers = 0,
     ka_load = 4, kb_load = 4, ka_pfStride = 4, kb_pfStride = 4, ka_prefetch = 4,
     kb_prefetch = 4, kInterleaveChunk = 0, slmA = False, slmB = False,
     unrollM = 32, unrollN = 16, unrollK = 4, unrollKSLM = 4, barrierFreq = 0,
     namedBarriersM = 0, namedBarriersN = 0, kParallelLocal = False, fusePostOps = True,
     cLoadAhead = False, registerOutput = False, fuseBeta = False, altFusedBeta = False,
     prefetchA = 1, prefetchB = 1, prefetchC = 0, prefetchABL3 = 0, cooperativePF = False,
     A_prefetch_isBlock2D = False, B_prefetch_isBlock2D = False, strictFence = False,
     slmFenceWARWA = False, splitBarrier = False, activeThreads = 0\<rparr>"

definition strategy_slm_ex :: GEMMStrategy where
  "strategy_slm_ex = strategy_ex\<lparr>slmA := True, slmB := True, slmBuffers := 1, A_copies := 1,
     B_copies := 1\<rparr>"

definition state_ex :: GEMMState where
  "state_ex = \<lparr>ka_loadRem = 1, kb_loadRem = 1, kaq = 0, kbq = 0, kaqLate = 0, kbqLate = 0,
     lateScale2DA = False, lateScale2DB = False, r0_info_isARF = False, isNested = False,
     firstKLoopSegment = True, k = Some 0, K = None, C_accCount = 0, C_buffers = 1,
     remActiveA = False, remActiveB = False,
     remActiveSLM = False, lastThresh = 0, kSLMA = None, kSLMB = None, kSLMStorage = None,
     barrierHeader = None, barrierReady = False, splitBarrierAlways = False,
     kNoBarrierStart = None, kNoBarrierEnd = None, ra_free = [10, 11, 12]\<rparr>"

definition first_store_ex :: "instr list" where
  "first_store_ex = [BarrierHeader, BarrierMsg BarrierUnnamed, BarrierWait,
     StoreMatrix OpA, StoreMatrix OpB,
     SLMFence, FenceWait, BarrierMsg BarrierUnnamed, BarrierWait]"

definition next_store_ex :: "instr list" where
  "next_store_ex = [BarrierMsg BarrierUnnamed, BarrierWait,
     StoreMatrix OpA, StoreMatrix OpB,
     SLMFence, FenceWait, BarrierMsg BarrierUnnamed, BarrierWait]"

text \<open>The example build state once a barrier header has been set up, and a strategy with a
  periodic barrier every four iterations.\<close>

definition state_barrier_ex :: GEMMState where
  "state_barrier_ex = state_ex\<lparr>barrierHeader := Some 10, barrierReady := True,
     ra_free := [11, 12]\<rparr>"

definition strategy_slm_pb_ex :: GEMMStrategy where
  "strategy_slm_pb_ex = strategy_slm_ex\<lparr>barrierFreq := 4\<rparr>"

text \<open>A build state in the middle of the main path, and routines that emit one entry each.\<close>

definition state_mid_ex :: GEMMState where
  "state_mid_ex = state_ex\<lparr>K := Some 10, remActiveA := True, remActiveSLM := True,
     lastThresh := 4, kSLMStorage := Some 11, kSLMA := Some 11, barrierHeader := Some 12,
     barrierReady := True, ra_free := []\<rparr>"

text \<open>The snapshot \<^verbatim>\<open>kLoop\<close> takes in the example (the loop counter allocated), and a strategy
  with a split periodic barrier every four iterations.\<close>

definition state_preloop_ex :: GEMMState where
  "state_preloop_ex = state_ex\<lparr>K := Some 10, ra_free := [11, 12]\<rparr>"

definition strategy_split_ex :: GEMMStrategy where
  "strategy_split_ex = strategy_ex\<lparr>barrierFreq := 4, splitBarrier := True\<rparr>"

definition locals_ex :: kLoop_locals where
  "locals_ex = \<lparr>curPhase = PhaseCooldown, haveA_lastRSWA = True, didForceActivateRemA = True,
     didForceActivateRemB = False\<rparr>"

definition externals_ex :: kLoop_externals where
  "externals_ex = \<lparr>gemmPrefetchC = emit [PrefetchC], gemmInitL3Prefetch = emit [InitL3Prefetch],
     setupTeardownRemask = (\<lambda>i setup. emit [])\<rparr>"

section \<open>Properties\<close>

subsection \<open>32-bit arithmetic\<close>

lemma int32_id: "- 2147483648 \<le> x \<Longrightarrow> x < 2147483648 \<Longrightarrow> int32 x = x"
  by (simp add: int32_def mod_pos_pos_trivial)

subsection \<open>\<^verbatim>\<open>kLoopSingle\<close>\<close>

text \<open>
  Claim C8. \<^verbatim>\<open>kLoopSingle\<close> returns false when \<^verbatim>\<open>kLoopSetup\<close> fails (returns false), and then
  neither \<^verbatim>\<open>kLoop\<close> nor \<^verbatim>\<open>kLoopTeardown\<close> is called: the call log holds the setup alone and the
  generator state is the one the setup left, so no k-loop instruction was generated. It returns
  true exactly when the setup returned true and the loop body and then the teardown were
  generated (both completed without throwing), the final state being the teardown's.
\<close>

theorem kLoopSingle_result:
  "(kLoopSetup state = Inr (False, s1)
      \<longrightarrow> kLoopSingle kLoopSetup kLoop kLoopTeardown state = ([CallSetup], Inr (False, s1)))
   \<and> (snd (kLoopSingle kLoopSetup kLoop kLoopTeardown state) = Inr (True, s3)
      \<longleftrightarrow> (\<exists>s1 s2. kLoopSetup state = Inr (True, s1) \<and> kLoop s1 = Inr s2
                   \<and> kLoopTeardown s2 = Inr s3))
   \<and> (snd (kLoopSingle kLoopSetup kLoop kLoopTeardown state) = Inr (True, s3)
      \<longrightarrow> fst (kLoopSingle kLoopSetup kLoop kLoopTeardown state)
            = [CallSetup, CallKLoop, CallTeardown])"
  by (auto simp: kLoopSingle_def split: sum.splits prod.splits if_splits)

text \<open>On a generator state that is just the instruction stream: a failing setup leaves the
  stream as it was, a succeeding one is followed by the loop and the teardown.\<close>

theorem kLoopSingle_result_witness:
  "kLoopSingle (\<lambda>s. Inr (False, s)) (\<lambda>s. Inr (s @ [BarrierWait])) (\<lambda>s. Inr (s @ [FenceWait])) []
     = ([CallSetup], Inr (False, []))
   \<and> snd (kLoopSingle (\<lambda>s. Inr (True, s)) (\<lambda>s. Inr (s @ [BarrierWait]))
            (\<lambda>s. Inr (s @ [FenceWait])) []) = Inr (True, [BarrierWait, FenceWait])
   \<and> fst (kLoopSingle (\<lambda>s. Inr (True, s)) (\<lambda>s. Inr (s @ [BarrierWait]))
            (\<lambda>s. Inr (s @ [FenceWait])) []) = [CallSetup, CallKLoop, CallTeardown]"
  using kLoopSingle_result [of "\<lambda>s. Inr (False, s)" "[]" "[]" "\<lambda>s. Inr (s @ [BarrierWait])"
      "\<lambda>s. Inr (s @ [FenceWait])" "[]"]
    kLoopSingle_result [of "\<lambda>s. Inr (True, s)" "[]" "[]" "\<lambda>s. Inr (s @ [BarrierWait])"
      "\<lambda>s. Inr (s @ [FenceWait])" "[BarrierWait, FenceWait]"]
  by simp

subsection \<open>SLM store addresses\<close>

lemma sdiv_nonneg: "0 \<le> h \<Longrightarrow> 0 < u \<Longrightarrow> (h::int) sdiv u = h div u"
  by (simp add: signed_divide_int_def sgn_if)

lemma smod_nonneg: "0 \<le> h \<Longrightarrow> 0 < u \<Longrightarrow> (h::int) smod u = h mod u"
  by (simp add: signed_modulo_int_def sgn_if)

lemma slmBuffer_nonneg:
  "0 \<le> h \<Longrightarrow> 0 < unrollKSLM strategy \<Longrightarrow> 0 < slmBuffers strategy \<Longrightarrow>
   slmBuffer strategy h = (h div unrollKSLM strategy) mod slmBuffers strategy"
  by (simp add: slmBuffer_def sdiv_nonneg smod_nonneg pos_imp_zdiv_nonneg_iff)

lemma mod_step_int:
  assumes "0 < (b::int)"
  shows "(if m mod b = b - 1 then - (b - 1) else 1) = (m + 1) mod b - m mod b"
proof -
  have r: "0 \<le> m mod b" "m mod b < b" using assms by simp_all
  have e: "(m + 1) mod b = (m mod b + 1) mod b" by (simp add: mod_add_left_eq)
  show ?thesis
  proof (cases "m mod b = b - 1")
    case True
    then show ?thesis using e by simp
  next
    case False
    then have "m mod b + 1 < b" using r by linarith
    then have "(m mod b + 1) mod b = m mod b + 1" using r by (simp add: mod_pos_pos_trivial)
    then show ?thesis using e False by simp
  qed
qed

lemma kIncSLMStore_plain:
  assumes "0 \<le> h" "0 < unrollKSLM strategy" "0 < slmBuffers strategy"
    and "slmBuffers strategy * unrollKSLM strategy \<le> 2147483647"
  shows "kIncSLMStore strategy h =
         (if slmBuffer strategy h = slmBuffers strategy - 1 then - (slmBuffers strategy - 1) else 1)
           * unrollKSLM strategy"
proof -
  let ?U = "unrollKSLM strategy" and ?B = "slmBuffers strategy"
  have u1: "1 \<le> ?U" and b1: "1 \<le> ?B" using assms by simp_all
  have "?B * 1 \<le> ?B * ?U" using u1 b1 by (intro mult_left_mono) simp_all
  then have b: "?B \<le> 2147483647" using assms(4) by simp
  have "1 * ?U \<le> ?B * ?U" using u1 b1 by (intro mult_right_mono) simp_all
  then have u: "?U \<le> 2147483647" using assms(4) by simp
  have "(?B - 1) * ?U \<le> ?B * ?U" using u1 by (intro mult_right_mono) simp_all
  then have p: "(?B - 1) * ?U \<le> 2147483647" using assms(4) by simp
  have p0: "0 \<le> (?B - 1) * ?U" using u1 b1 by simp
  have e1: "int32 (?B - 1) = ?B - 1" using b b1 by (intro int32_id) simp_all
  have e2: "int32 (- (?B - 1)) = - (?B - 1)" using b b1 by (intro int32_id) simp_all
  have e3: "int32 (- (?B - 1) * ?U) = - (?B - 1) * ?U"
  proof (rule int32_id)
    have n: "- (?B - 1) * ?U = - ((?B - 1) * ?U)" by (simp add: algebra_simps)
    show "- 2147483648 \<le> - (?B - 1) * ?U" unfolding n using p by linarith
    show "- (?B - 1) * ?U < 2147483648" unfolding n using p0 by linarith
  qed
  have e4: "int32 (1 * ?U) = 1 * ?U" using u u1 by (intro int32_id) simp_all
  show ?thesis
  proof (cases "slmBuffer strategy h = ?B - 1")
    case True
    then show ?thesis unfolding kIncSLMStore_def e1 e2 using e3 by simp
  next
    case False
    then show ?thesis unfolding kIncSLMStore_def e1 e2 using e4 by simp
  qed
qed

lemma kIncSLMStore_step:
  assumes "0 \<le> h" "0 < unrollKSLM strategy" "0 < slmBuffers strategy"
    and "slmBuffers strategy * unrollKSLM strategy \<le> 2147483647"
  shows "kIncSLMStore strategy h =
         ((h div unrollKSLM strategy + 1) mod slmBuffers strategy
            - (h div unrollKSLM strategy) mod slmBuffers strategy) * unrollKSLM strategy"
  using assms(1-3) mod_step_int [of "slmBuffers strategy" "h div unrollKSLM strategy"]
  by (simp add: kIncSLMStore_plain [OF assms] slmBuffer_nonneg)

lemma kIncSLMStore_net_zero:
  assumes "0 \<le> h" "0 < unrollKSLM strategy" "0 < slmBuffers strategy"
    and "slmBuffers strategy * unrollKSLM strategy \<le> 2147483647"
  shows "(\<Sum>i<nat (slmBuffers strategy). kIncSLMStore strategy (h + int i * unrollKSLM strategy)) = 0"
proof -
  let ?U = "unrollKSLM strategy" and ?B = "slmBuffers strategy"
  let ?q = "h div ?U"
  let ?f = "\<lambda>i. (?q + int i) mod ?B"
  have step: "kIncSLMStore strategy (h + int i * ?U) = (?f (Suc i) - ?f i) * ?U" for i
  proof -
    have "(h + int i * ?U) div ?U = ?q + int i" using assms by simp
    moreover have "0 \<le> h + int i * ?U" using assms by simp
    ultimately show ?thesis
      using kIncSLMStore_step [OF _ assms(2,3,4), of "h + int i * ?U"] by (simp add: ac_simps)
  qed
  have "(\<Sum>i<nat ?B. kIncSLMStore strategy (h + int i * ?U)) = (\<Sum>i<nat ?B. ?f (Suc i) - ?f i) * ?U"
    by (simp add: step sum_distrib_right)
  also have "(\<Sum>i<nat ?B. ?f (Suc i) - ?f i) = ?f (nat ?B) - ?f 0"
    by (rule sum_lessThan_telescope)
  also have "?f (nat ?B) - ?f 0 = 0" using assms by simp
  finally show ?thesis by simp
qed

lemma run_addrs_append: "run_addrs bw (xs @ ys) addrs = run_addrs bw ys (run_addrs bw xs addrs)"
  by (simp add: run_addrs_def)

lemma run_addrs_doSLMStoreInc:
  "run_addrs bw (doSLMStoreInc strategy h) addrs x =
     (if uses_slm strategy x
      then addrs x + (if bw then - kIncSLMStore strategy h else kIncSLMStore strategy h)
      else addrs x)"
  by (cases x) (simp_all add: run_addrs_def doSLMStoreInc_def gemmIncrement_def uses_slm_def)

lemma slm_store_incs_Suc:
  "slm_store_incs strategy (Suc n) =
     slm_store_incs strategy n @ doSLMStoreInc strategy (int n * unrollKSLM strategy)"
  by (simp add: slm_store_incs_def)

lemma run_addrs_slm_store_incs:
  assumes "0 < unrollKSLM strategy" "0 < slmBuffers strategy"
    and "slmBuffers strategy * unrollKSLM strategy \<le> 2147483647"
  shows "run_addrs bw (slm_store_incs strategy n) addrs x =
     (if uses_slm strategy x
      then addrs x + (if bw then - ((int n mod slmBuffers strategy) * unrollKSLM strategy)
                      else (int n mod slmBuffers strategy) * unrollKSLM strategy)
      else addrs x)"
proof (induction n)
  case 0
  then show ?case by (simp add: slm_store_incs_def run_addrs_def)
next
  case (Suc n)
  have k: "kIncSLMStore strategy (int n * unrollKSLM strategy) =
        ((int n + 1) mod slmBuffers strategy - int n mod slmBuffers strategy) * unrollKSLM strategy"
    using assms kIncSLMStore_step [OF _ assms, of "int n * unrollKSLM strategy"] by simp
  show ?case
    by (simp add: slm_store_incs_Suc run_addrs_append run_addrs_doSLMStoreInc Suc k algebra_simps)
qed

text \<open>
  Claim C9. For every iteration \<open>h\<close> (non-negative, with a positive \<^verbatim>\<open>unrollKSLM\<close>, at least one
  SLM buffer, and \<open>slmBuffers * unrollKSLM\<close> within the 32-bit range) the increment
  \<^verbatim>\<open>doSLMStoreInc\<close> applies to the SLM store address of each operand staged through SLM is
  \<open>+unrollKSLM\<close>, except when the store went to the last buffer
  (\<open>slmBuffer h = slmBuffers - 1\<close>), where it is \<open>-(slmBuffers - 1) * unrollKSLM\<close> (the address
  moves the other way when the problem runs backward, and the address of an operand not in SLM
  is left alone). The increments of any \<open>slmBuffers\<close> consecutive store blocks add up to zero,
  and after the increments of \<open>n\<close> store blocks the store address is the base plus
  \<open>(n mod slmBuffers) * unrollKSLM\<close>: it cycles through the \<open>slmBuffers\<close> slots and is back where
  it was after \<open>slmBuffers\<close> further blocks.
\<close>

theorem slm_store_addr_cycles:
  assumes "0 \<le> h" "0 < unrollKSLM strategy" "0 < slmBuffers strategy"
    and "slmBuffers strategy * unrollKSLM strategy \<le> 2147483647"
  shows "kIncSLMStore strategy h =
           (if slmBuffer strategy h = slmBuffers strategy - 1
            then - (slmBuffers strategy - 1) * unrollKSLM strategy else unrollKSLM strategy)
       \<and> run_addrs bw (doSLMStoreInc strategy h) addrs x =
           (if uses_slm strategy x
            then addrs x + (if bw then - kIncSLMStore strategy h else kIncSLMStore strategy h)
            else addrs x)
       \<and> (\<Sum>i<nat (slmBuffers strategy).
              kIncSLMStore strategy (h + int i * unrollKSLM strategy)) = 0
       \<and> run_addrs bw (slm_store_incs strategy n) addrs x =
           (if uses_slm strategy x
            then addrs x + (if bw then - ((int n mod slmBuffers strategy) * unrollKSLM strategy)
                            else (int n mod slmBuffers strategy) * unrollKSLM strategy)
            else addrs x)
       \<and> run_addrs bw (slm_store_incs strategy (n + nat (slmBuffers strategy))) addrs x
           = run_addrs bw (slm_store_incs strategy n) addrs x"
proof -
  have a: "kIncSLMStore strategy h =
           (if slmBuffer strategy h = slmBuffers strategy - 1
            then - (slmBuffers strategy - 1) * unrollKSLM strategy else unrollKSLM strategy)"
    by (simp add: kIncSLMStore_plain [OF assms])
  have m: "int (n + nat (slmBuffers strategy)) mod slmBuffers strategy
           = int n mod slmBuffers strategy"
    using assms(3) by simp
  have c: "run_addrs bw (slm_store_incs strategy (n + nat (slmBuffers strategy))) addrs x
           = run_addrs bw (slm_store_incs strategy n) addrs x"
    unfolding run_addrs_slm_store_incs [OF assms(2,3,4)] m by (rule refl)
  show ?thesis
    using a c kIncSLMStore_net_zero [OF assms] run_addrs_slm_store_incs [OF assms(2,3,4)]
      run_addrs_doSLMStoreInc
    by simp
qed

text \<open>Three SLM buffers of four iterations each, both operands in SLM: the store of iteration 8
  goes to the last buffer and both addresses step back by 8; after five blocks they are at
  slot 2, and again after eight.\<close>

theorem slm_store_addr_cycles_witness:
  "kIncSLMStore (strategy_slm_ex\<lparr>slmBuffers := 3\<rparr>) 8 = - 8
   \<and> kIncSLMStore (strategy_slm_ex\<lparr>slmBuffers := 3\<rparr>) 4 = 4
   \<and> doSLMStoreInc (strategy_slm_ex\<lparr>slmBuffers := 3\<rparr>) 8 = [IncDecAddr OpA (- 8), IncDecAddr OpB (- 8)]
   \<and> run_addrs False (doSLMStoreInc (strategy_slm_ex\<lparr>slmBuffers := 3\<rparr>) 8) (\<lambda>x. 100) OpA = 92
   \<and> (\<Sum>i<3. kIncSLMStore (strategy_slm_ex\<lparr>slmBuffers := 3\<rparr>) (8 + int i * 4)) = 0
   \<and> run_addrs False (slm_store_incs (strategy_slm_ex\<lparr>slmBuffers := 3\<rparr>) 5) (\<lambda>x. 100) OpB = 108
   \<and> run_addrs False (slm_store_incs (strategy_slm_ex\<lparr>slmBuffers := 3\<rparr>) 8) (\<lambda>x. 100) OpB = 108"
proof -
  let ?s = "strategy_slm_ex\<lparr>slmBuffers := 3\<rparr>"
  have h: "(0::int) \<le> 8" "(0::int) \<le> 4" "0 < unrollKSLM ?s" "0 < slmBuffers ?s"
    "slmBuffers ?s * unrollKSLM ?s \<le> 2147483647"
    by (simp_all add: strategy_slm_ex_def strategy_ex_def)
  have u: "uses_slm ?s OpA" "uses_slm ?s OpB" "unrollKSLM ?s = 4" "slmBuffers ?s = 3"
    "slmBuffer ?s 8 = 2" "slmBuffer ?s 4 = 1"
    by (simp_all add: strategy_slm_ex_def strategy_ex_def uses_slm_def slmBuffer_def
        signed_divide_int_def signed_modulo_int_def)
  have k: "kIncSLMStore ?s 8 = - 8"
    using slm_store_addr_cycles [OF h(1) h(3) h(4) h(5), of False "\<lambda>x. 100" OpA 5] u by simp
  have d: "doSLMStoreInc ?s 8 = [IncDecAddr OpA (- 8), IncDecAddr OpB (- 8)]"
    using k by (simp add: doSLMStoreInc_def gemmIncrement_def strategy_slm_ex_def strategy_ex_def)
  show ?thesis
    using slm_store_addr_cycles [OF h(1) h(3) h(4) h(5), of False "\<lambda>x. 100" OpA 5]
      slm_store_addr_cycles [OF h(2) h(3) h(4) h(5), of False "\<lambda>x. 100" OpB 5]
      u d
    by simp
qed

subsection \<open>Prezeroing and remasking of integer operands\<close>

text \<open>
  Claim C10. When A and B both have integer element types and neither A sums nor B sums are
  required, remainder handling prezeroes at most one of the two operands and remasks at most
  one of them. If both would otherwise need it, the operand with the smaller unroll dimension
  is kept: A's prezeroing (remasking) is disabled when \<open>unrollM \<ge> unrollN\<close>, otherwise B's.
  If one operand went through SLM, register remasking of both is disabled.
\<close>

theorem prezero_remask_one_operand:
  assumes "Ta_isInteger problem" "Tb_isInteger problem"
    and "\<not> needsASums problem" "\<not> needsBSums problem"
  shows "\<not> (fst (prezeroRem problem strategy state minOPCount)
            \<and> snd (prezeroRem problem strategy state minOPCount))
    \<and> ((\<not> slmA strategy \<and> ka_loadRem state < minOPCount)
         \<and> (\<not> slmB strategy \<and> kb_loadRem state < minOPCount)
        \<longrightarrow> prezeroRem problem strategy state minOPCount
              = (unrollM strategy < unrollN strategy, unrollN strategy \<le> unrollM strategy))
    \<and> \<not> (fst (remaskAB problem strategy minOPCount needsRemaskA needsRemaskB)
            \<and> snd (remaskAB problem strategy minOPCount needsRemaskA needsRemaskB))
    \<and> ((\<not> slmA strategy \<and> minOPCount > 1 \<and> needsRemaskA)
         \<and> (\<not> slmB strategy \<and> minOPCount > 1 \<and> needsRemaskB)
        \<longrightarrow> remaskAB problem strategy minOPCount needsRemaskA needsRemaskB
              = (unrollM strategy < unrollN strategy, unrollN strategy \<le> unrollM strategy))
    \<and> (slmA strategy \<or> slmB strategy
        \<longrightarrow> remaskAB problem strategy minOPCount needsRemaskA needsRemaskB = (False, False))"
  using assms by (auto simp: prezeroRem_def remaskAB_def readA_def readB_def Let_def)

text \<open>With \<open>unrollM = 32 \<ge> unrollN = 16\<close> and both operands loaded one k at a time for a
  four-deep outer product, only B is prezeroed and remasked; with B in SLM nothing is remasked
  in registers.\<close>

theorem prezero_remask_one_operand_witness:
  "Ta_isInteger problem_ex \<and> Tb_isInteger problem_ex
   \<and> \<not> needsASums problem_ex \<and> \<not> needsBSums problem_ex
   \<and> prezeroRem problem_ex strategy_ex state_ex 4 = (False, True)
   \<and> remaskAB problem_ex strategy_ex 4 True True = (False, True)
   \<and> remaskAB problem_ex (strategy_ex\<lparr>slmB := True\<rparr>) 4 True True = (False, False)"
proof -
  have h: "Ta_isInteger problem_ex" "Tb_isInteger problem_ex"
    "\<not> needsASums problem_ex" "\<not> needsBSums problem_ex"
    by (simp_all add: problem_ex_def)
  show ?thesis
    using prezero_remask_one_operand [OF h, of strategy_ex state_ex 4 True True]
      prezero_remask_one_operand [OF h, of "strategy_ex\<lparr>slmB := True\<rparr>" state_ex 4 True True]
    by (simp add: problem_ex_def strategy_ex_def state_ex_def)
qed

subsection \<open>Failures of \<^verbatim>\<open>kLoop\<close> before the loop sequence is materialized\<close>

lemma kLoop_init_K_cases:
  assumes "kLoop_init_K problem strategy state = (i1, r)"
  shows "(i1 = [] \<and> r = Inl OutOfRegisters \<and> ra_free state = [])
   \<or> (\<exists>state1. r = Inr state1 \<and> list_all preamble_instr i1
         \<and> ka_loadRem state1 = ka_loadRem state \<and> kb_loadRem state1 = kb_loadRem state)"
proof (cases "K state \<noteq> None")
  case True
  then show ?thesis using assms by (auto simp: kLoop_init_K_def)
next
  case nk: False
  show ?thesis
  proof (cases "saveK problem strategy state")
    case True
    then show ?thesis using assms nk by (cases "ra_free state") (auto simp: kLoop_init_K_def)
  next
    case False
    then show ?thesis using assms nk by (auto simp: kLoop_init_K_def)
  qed
qed

lemma kLoop_zero_init_preamble: "list_all preamble_instr (kLoop_zero_init problem strategy state)"
  by (auto simp: kLoop_zero_init_def list_all_iff)

lemma kLoop_schedule_checks_incompatible:
  assumes "lookahead_incompatible strategy state"
  shows "kLoop_schedule_checks problem strategy state minOPCount needsRemaskA needsRemaskB analysis
         = Some Stub"
  using assms by (simp add: kLoop_schedule_checks_def slmBufferLA_def)

lemma kLoop_schedule_checks_mismatch:
  assumes "analysis = Inr u" "u \<noteq> unrollK strategy"
  shows "kLoop_schedule_checks problem strategy state minOPCount needsRemaskA needsRemaskB analysis
         = Some Stub"
  using assms by (simp add: kLoop_schedule_checks_def slmBufferLA_def)

lemma kLoop_prefix_cases:
  obtains (stub)
    "kLoop_prefix problem strategy state minOPCount needsRemaskA needsRemaskB analysis
       = ([], Inl Stub)"
  | (no_register)
    "kLoop_prefix problem strategy state minOPCount needsRemaskA needsRemaskB analysis
       = ([], Inl OutOfRegisters)" "ra_free state = []"
  | (checks) i1 state1 where
    "ka_loadRem state1 = ka_loadRem state" "kb_loadRem state1 = kb_loadRem state"
    "list_all preamble_instr i1"
    "kLoop_prefix problem strategy state minOPCount needsRemaskA needsRemaskB analysis
       = (i1 @ kLoop_zero_init problem strategy state1,
          case kLoop_schedule_checks problem strategy state1 minOPCount needsRemaskA
                 needsRemaskB analysis of
            Some e \<Rightarrow> Inl e
          | None \<Rightarrow> Inr state1)"
proof (cases "kLoop_entry_stub strategy (state\<lparr>lastThresh := 0\<rparr>)")
  case True
  then have "kLoop_prefix problem strategy state minOPCount needsRemaskA needsRemaskB analysis
           = ([], Inl Stub)"
    by (simp add: kLoop_prefix_def Let_def)
  then show ?thesis by (rule stub)
next
  case ne: False
  obtain i1 r where k: "kLoop_init_K problem strategy (state\<lparr>lastThresh := 0\<rparr>) = (i1, r)"
    by (cases "kLoop_init_K problem strategy (state\<lparr>lastThresh := 0\<rparr>)")
  from kLoop_init_K_cases [OF k] show ?thesis
  proof
    assume a: "i1 = [] \<and> r = Inl OutOfRegisters \<and> ra_free (state\<lparr>lastThresh := 0\<rparr>) = []"
    then have "kLoop_prefix problem strategy state minOPCount needsRemaskA needsRemaskB analysis
           = ([], Inl OutOfRegisters)"
      using ne by (simp add: kLoop_prefix_def k Let_def)
    moreover have "ra_free state = []" using a by simp
    ultimately show ?thesis by (rule no_register)
  next
    assume "\<exists>state1. r = Inr state1 \<and> list_all preamble_instr i1
         \<and> ka_loadRem state1 = ka_loadRem (state\<lparr>lastThresh := 0\<rparr>)
         \<and> kb_loadRem state1 = kb_loadRem (state\<lparr>lastThresh := 0\<rparr>)"
    then obtain state1 where s1: "r = Inr state1" and s2: "list_all preamble_instr i1"
      and s3: "ka_loadRem state1 = ka_loadRem state" and s4: "kb_loadRem state1 = kb_loadRem state"
      by (elim exE conjE) simp
    have "kLoop_prefix problem strategy state minOPCount needsRemaskA needsRemaskB analysis
           = (i1 @ kLoop_zero_init problem strategy state1,
              case kLoop_schedule_checks problem strategy state1 minOPCount needsRemaskA
                     needsRemaskB analysis of
                Some e \<Rightarrow> Inl e
              | None \<Rightarrow> Inr state1)"
      using s1 ne by (simp add: kLoop_prefix_def k Let_def)
    with s3 s4 s2 show ?thesis by (rule checks)
  qed
qed

lemma lookahead_incompatible_cong:
  "ka_loadRem state1 = ka_loadRem state \<Longrightarrow> kb_loadRem state1 = kb_loadRem state \<Longrightarrow>
   lookahead_incompatible strategy state1 = lookahead_incompatible strategy state"
  by (simp add: lookahead_incompatible_def lookaheadALoadRem_def lookaheadBLoadRem_def)

text \<open>
  Claim C7. When both A and B use SLM, generation fails at code-generation time whenever their
  load lookaheads are incompatible: the main-path lookaheads differ, the remainder-path
  lookaheads differ, or the load periods differ while A's main and remainder lookaheads
  disagree. The lookaheads are the values \<^verbatim>\<open>kLoop\<close> computes at lines 285--288, products in
  32-bit arithmetic. \<^verbatim>\<open>kLoop\<close> throws, so no kernel is produced: the exception is that of
  \<^verbatim>\<open>stub()\<close>, unless the allocation of the loop counter before it already failed for lack of
  registers.
\<close>

theorem kLoop_incompatible_lookahead_fails:
  assumes "slmA strategy" "slmB strategy"
    and "lookaheadALoad strategy \<noteq> lookaheadBLoad strategy
       \<or> lookaheadALoadRem strategy state \<noteq> lookaheadBLoadRem strategy state
       \<or> (ka_load strategy \<noteq> kb_load strategy
           \<and> lookaheadALoad strategy \<noteq> lookaheadALoadRem strategy state)"
  shows "snd (kLoop_prefix problem strategy state minOPCount needsRemaskA needsRemaskB analysis) = Inl Stub
       \<or> (snd (kLoop_prefix problem strategy state minOPCount needsRemaskA needsRemaskB analysis) = Inl OutOfRegisters
           \<and> ra_free state = [])"
proof -
  have inc: "lookahead_incompatible strategy state"
    using assms by (simp add: lookahead_incompatible_def)
  show ?thesis
  proof (cases problem strategy state minOPCount needsRemaskA needsRemaskB analysis
      rule: kLoop_prefix_cases)
    case stub
    then show ?thesis by simp
  next
    case no_register
    then show ?thesis by simp
  next
    case (checks i1 state1)
    have "lookahead_incompatible strategy state1"
      using inc lookahead_incompatible_cong [OF checks(1,2), of strategy] by simp
    then show ?thesis
      using checks(4) by (simp add: kLoop_schedule_checks_incompatible)
  qed
qed

text \<open>Both operands in SLM, two register copies of A and one of B: lookahead 4 against 0.
  (With loads of 65536 iterations and 65537 copies of A against one of B the product for A wraps
  around to 0, the lookahead of B, and this check does not fail.)\<close>

theorem kLoop_incompatible_lookahead_fails_witness:
  "slmA (strategy_slm_ex\<lparr>A_copies := 2\<rparr>) \<and> slmB (strategy_slm_ex\<lparr>A_copies := 2\<rparr>)
   \<and> lookaheadALoad (strategy_slm_ex\<lparr>A_copies := 2\<rparr>)
       \<noteq> lookaheadBLoad (strategy_slm_ex\<lparr>A_copies := 2\<rparr>)
   \<and> snd (kLoop_prefix problem_ex (strategy_slm_ex\<lparr>A_copies := 2\<rparr>) state_ex 4 False False
            (Inr 4)) = Inl Stub
   \<and> lookaheadALoad (strategy_slm_ex\<lparr>A_copies := 65537, ka_load := 65536, kb_load := 65536\<rparr>)
       = lookaheadBLoad (strategy_slm_ex\<lparr>A_copies := 65537, ka_load := 65536, kb_load := 65536\<rparr>)"
proof -
  have h: "slmA (strategy_slm_ex\<lparr>A_copies := 2\<rparr>)" "slmB (strategy_slm_ex\<lparr>A_copies := 2\<rparr>)"
    "lookaheadALoad (strategy_slm_ex\<lparr>A_copies := 2\<rparr>)
       \<noteq> lookaheadBLoad (strategy_slm_ex\<lparr>A_copies := 2\<rparr>)"
    by (simp_all add: strategy_slm_ex_def strategy_ex_def lookaheadALoad_def lookaheadBLoad_def
        int32_def)
  have w: "lookaheadALoad (strategy_slm_ex\<lparr>A_copies := 65537, ka_load := 65536, kb_load := 65536\<rparr>)
       = lookaheadBLoad (strategy_slm_ex\<lparr>A_copies := 65537, ka_load := 65536, kb_load := 65536\<rparr>)"
    by (simp add: strategy_slm_ex_def strategy_ex_def lookaheadALoad_def lookaheadBLoad_def
        int32_def)
  have r: "ra_free state_ex \<noteq> []" by (simp add: state_ex_def)
  show ?thesis
    using h w r kLoop_incompatible_lookahead_fails [OF h(1) h(2) disjI1 [OF h(3)], where state = state_ex and problem = problem_ex
        and minOPCount = 4 and needsRemaskA = False and needsRemaskB = False
        and analysis = "Inr 4"]
    by simp
qed

text \<open>
  Claim C2, as stated, fails: when the unroll computed by the analyzer disagrees with
  \<^verbatim>\<open>unrollK\<close>, generation fails, but instructions have already been emitted. With
  \<^verbatim>\<open>fusePostOps\<close> set and no loop counter supplied by the caller, \<^verbatim>\<open>kLoop\<close> has emitted the
  \<^verbatim>\<open>mov\<close> initialising \<^verbatim>\<open>state.K\<close> and the zeroing of C when it reaches the check of line 1313
  (analyzer unroll 8 against \<^verbatim>\<open>unrollK = 4\<close>).
\<close>

theorem kLoop_unroll_mismatch_counterexample:
  "kLoop_prefix problem_ex strategy_ex state_ex 4 False False (Inr 8)
     = ([Mov_K_kInput, ZeroMatrix (C_regs 0)], Inl Stub)"
  by code_simp

text \<open>
  Claim C2, amended. If the unroll computed by the analyzer disagrees with the externally
  supplied \<^verbatim>\<open>unrollK\<close>, generation fails with an exception before the loop sequence is
  materialized: at the point of failure the stream holds at most the instructions \<^verbatim>\<open>kLoop\<close>
  emits before scheduling (the initialisation of the loop counter and the zeroing of the A/B
  sums and of C, lines 248--270) and no instruction of any loop phase.
\<close>

theorem kLoop_unroll_mismatch_fails:
  assumes "analysis = Inr u" "u \<noteq> unrollK strategy"
  shows "(\<exists>e. snd (kLoop_prefix problem strategy state minOPCount needsRemaskA needsRemaskB analysis) = Inl e)
       \<and> list_all preamble_instr (fst (kLoop_prefix problem strategy state minOPCount needsRemaskA needsRemaskB analysis))"
proof (cases problem strategy state minOPCount needsRemaskA needsRemaskB analysis
      rule: kLoop_prefix_cases)
  case stub
  then show ?thesis by simp
next
  case no_register
  then show ?thesis by simp
next
  case (checks i1 state1)
  then show ?thesis
    using kLoop_schedule_checks_mismatch [OF assms]
    by (simp add: kLoop_zero_init_preamble)
qed


theorem kLoop_unroll_mismatch_fails_witness:
  "(8::int) \<noteq> unrollK strategy_ex
   \<and> (\<exists>e. snd (kLoop_prefix problem_ex strategy_ex state_ex 4 False False (Inr 8)) = Inl e)
   \<and> list_all preamble_instr
        (fst (kLoop_prefix problem_ex strategy_ex state_ex 4 False False (Inr 8)))"
proof -
  have h: "(8::int) \<noteq> unrollK strategy_ex" by (simp add: strategy_ex_def)
  show ?thesis
    using h kLoop_unroll_mismatch_fails [OF refl h, where state = state_ex and problem = problem_ex
        and minOPCount = 4 and needsRemaskA = False and needsRemaskB = False] by simp
qed

subsection \<open>Signs of the lookaheads\<close>

lemma mult_bound_16384:
  assumes "0 \<le> (a::int)" "a \<le> 16384" "0 \<le> b" "b \<le> 16384"
  shows "0 \<le> a * b \<and> a * b \<le> 268435456"
proof -
  have "a * b \<le> 16384 * 16384" using assms by (intro mult_mono) simp_all
  then show ?thesis using assms by simp
qed

lemma int32_mult_16384:
  assumes "0 \<le> (a::int)" "a \<le> 16384" "0 \<le> b" "b \<le> 16384"
  shows "int32 (a * b) = a * b"
  using mult_bound_16384 [OF assms] by (intro int32_id) simp_all





subsection \<open>Barriers around the SLM stores at one buffer\<close>

lemma andThen_Inr:
  assumes "andThen f g s = (xs, Inr s')"
  obtains ys zs s1 where "f s = (ys, Inr s1)" "g s1 = (zs, Inr s')" "xs = ys @ zs"
  using assms by (auto simp: andThen_def split: prod.splits sum.splits)

lemma emit_Inr: "emit ys s = (xs, Inr s') \<longleftrightarrow> xs = ys \<and> s' = s"
  by (auto simp: emit_def)

lemma gen_if_Inr:
  "gen_if b f s = (xs, Inr s') \<longleftrightarrow> (if b then f s = (xs, Inr s') else xs = [] \<and> s' = s)"
  by (auto simp: gen_if_def emit_def)

lemma slmFenceWait_sync: "slmFenceWait s = (xs, Inr s') \<Longrightarrow> sync_only 0 xs"
  by (auto simp: slmFenceWait_def sync_only_def barrier_waits_def split: sum.splits prod.splits)

lemma kLoopGetBarrierHeader_sync: "kLoopGetBarrierHeader s = (xs, Inr s') \<Longrightarrow> sync_only 0 xs"
  by (auto simp: kLoopGetBarrierHeader_def sync_only_def barrier_waits_def split: sum.splits if_splits)

lemma signal_unnamed_sync: 
  assumes "kLoopBarrier_signal_unnamed f s = (xs, Inr s')" shows "sync_only 0 xs"
proof -
  from assms obtain s1 temp s2 where a: "kLoopAllocBarrierHeader s = Inr s1" "getFenceTemp s1 = Inr (temp, s2)"
    and b: "andThen (gen_if f (emit [SLMFence, FenceWait]))
                 (andThen kLoopGetBarrierHeader
                    (andThen (emit [BarrierMsg BarrierUnnamed])
                       (\<lambda>s. ([], Inr (releaseFenceTemp temp s))))) s2 = (xs, Inr s')"
    by (auto simp: kLoopBarrier_signal_unnamed_def split: sum.splits prod.splits)
  from b obtain x1 x2 x3 x4 t1 t2 t3 where
    "gen_if f (emit [SLMFence, FenceWait]) s2 = (x1, Inr t1)"
    "kLoopGetBarrierHeader t1 = (x2, Inr t2)" "emit [BarrierMsg BarrierUnnamed] t2 = (x3, Inr t3)"
    "xs = x1 @ x2 @ x3 @ x4" "x4 = []"
    by (elim andThen_Inr) auto
  then show ?thesis
    using kLoopGetBarrierHeader_sync [of t1 x2 t2]
    by (auto simp: gen_if_Inr emit_Inr sync_only_def barrier_waits_def split: if_splits)
qed

lemma gen_if_emit_Inr:
  "gen_if b (emit ys) s = (xs, Inr s') \<longleftrightarrow> xs = (if b then ys else []) \<and> s' = s"
  by (auto simp: gen_if_def emit_def)

lemma named_signal_sync:
  assumes "andThen (gen_if f slmFenceWait)
             (andThen (gen_if m (emit [BarrierMsg BarrierM])) (gen_if n (emit [BarrierMsg BarrierN]))) s
           = (xs, Inr s')"
  shows "sync_only 0 xs"
proof -
  from assms obtain x1 t1 x2 where
    "gen_if f slmFenceWait s = (x1, Inr t1)"
    "andThen (gen_if m (emit [BarrierMsg BarrierM])) (gen_if n (emit [BarrierMsg BarrierN])) t1
       = (x2, Inr s')" "xs = x1 @ x2"
    by (rule andThen_Inr)
  moreover from this(2)
  have "x2 = (if m then [BarrierMsg BarrierM] else []) @ (if n then [BarrierMsg BarrierN] else [])"
    by (rule andThen_Inr) (simp add: gen_if_emit_Inr)
  ultimately have "gen_if f slmFenceWait s = (x1, Inr t1)"
    "xs = x1 @ (if m then [BarrierMsg BarrierM] else []) @ (if n then [BarrierMsg BarrierN] else [])"
    by simp_all
  then show ?thesis
    using slmFenceWait_sync [of s x1 t1]
    by (auto simp: gen_if_Inr sync_only_def barrier_waits_def split: if_splits)
qed

lemma gen_if_simps: "gen_if True f = f" "gen_if False f = emit []"
  by (simp_all add: gen_if_def)

lemma andThen_emit_Nil: "andThen (emit []) g = g" "andThen f (emit []) = f"
  by (auto simp: andThen_def emit_def fun_eq_iff split: prod.splits sum.splits)

lemma kLoopBarrier_Normal_sync:
  assumes "kLoopBarrier strategy f Normal s = (xs, Inr s')"
  shows "sync_only (waits_per_barrier strategy) xs"
proof (cases "\<not> nbM strategy \<and> \<not> nbN strategy")
  case True
  with assms have "andThen (kLoopBarrier_signal_unnamed f) (emit [BarrierWait]) s = (xs, Inr s')"
    by (simp add: kLoopBarrier_def gen_if_simps andThen_emit_Nil)
  then obtain x1 t1 where
    "kLoopBarrier_signal_unnamed f s = (x1, Inr t1)" "xs = x1 @ [BarrierWait]"
    by (rule andThen_Inr) (simp add: emit_Inr)
  then show ?thesis
    using True signal_unnamed_sync [of f s x1 t1]
    by (simp add: sync_only_def barrier_waits_def waits_per_barrier_def)
next
  case False
  with assms have "andThen
     (andThen (gen_if f slmFenceWait)
        (andThen (gen_if (nbM strategy) (emit [BarrierMsg BarrierM]))
           (gen_if (nbN strategy) (emit [BarrierMsg BarrierN]))))
     (andThen (gen_if (nbM strategy) (emit [SyncBar BarrierM]))
        (gen_if (nbN strategy) (emit [SyncBar BarrierN]))) s = (xs, Inr s')"
    by (simp add: kLoopBarrier_def gen_if_simps andThen_emit_Nil)
  then obtain x1 t1 x2 where
    "andThen (gen_if f slmFenceWait)
        (andThen (gen_if (nbM strategy) (emit [BarrierMsg BarrierM]))
           (gen_if (nbN strategy) (emit [BarrierMsg BarrierN]))) s = (x1, Inr t1)"
    "andThen (gen_if (nbM strategy) (emit [SyncBar BarrierM]))
        (gen_if (nbN strategy) (emit [SyncBar BarrierN])) t1 = (x2, Inr s')" "xs = x1 @ x2"
    by (rule andThen_Inr)
  moreover from this(2)
  have "x2 = (if nbM strategy then [SyncBar BarrierM] else [])
             @ (if nbN strategy then [SyncBar BarrierN] else [])"
    by (rule andThen_Inr) (simp add: gen_if_emit_Inr)
  ultimately have "andThen (gen_if f slmFenceWait)
        (andThen (gen_if (nbM strategy) (emit [BarrierMsg BarrierM]))
           (gen_if (nbN strategy) (emit [BarrierMsg BarrierN]))) s = (x1, Inr t1)"
    "xs = x1 @ (if nbM strategy then [SyncBar BarrierM] else [])
             @ (if nbN strategy then [SyncBar BarrierN] else [])"
    by simp_all
  then show ?thesis
    using False named_signal_sync [of f "nbM strategy" "nbN strategy" s x1 t1]
    by (auto simp: sync_only_def barrier_waits_def waits_per_barrier_def)
qed

lemma slm1x2xFencedBarrier_sync:
  assumes "slm1x2xFencedBarrier hw strategy s = (xs, Inr s')"
  shows "sync_only (waits_per_barrier strategy) xs"
proof -
  consider (a) "slm1x2xFencedBarrier hw strategy = kLoopBarrier strategy False Normal"
    | (b) "slm1x2xFencedBarrier hw strategy = kLoopBarrier strategy True Normal"
    | (c) "slm1x2xFencedBarrier hw strategy =
        andThen (gen_if (slmA strategy \<and> A_copies strategy > 1) (emit [WrdepRanges OpA]))
          (andThen (gen_if (slmB strategy \<and> B_copies strategy > 1) (emit [WrdepRanges OpB]))
             (kLoopBarrier strategy False Normal))"
    unfolding slm1x2xFencedBarrier_def by presburger
  then show ?thesis
  proof cases
    case a
    then show ?thesis using assms kLoopBarrier_Normal_sync by simp
  next
    case b
    then show ?thesis using assms kLoopBarrier_Normal_sync by simp
  next
    case c
    with assms obtain x1 x2 x3 t1 t2 where
      "gen_if (slmA strategy \<and> A_copies strategy > 1) (emit [WrdepRanges OpA]) s = (x1, Inr t1)"
      "gen_if (slmB strategy \<and> B_copies strategy > 1) (emit [WrdepRanges OpB]) t1 = (x2, Inr t2)"
      "kLoopBarrier strategy False Normal t2 = (x3, Inr s')" "xs = x1 @ x2 @ x3"
      by (auto elim!: andThen_Inr)
    then show ?thesis
      using kLoopBarrier_Normal_sync [of strategy False t2 x3 s']
      by (auto simp: gen_if_Inr emit_Inr sync_only_def barrier_waits_def split: if_splits)
  qed
qed

lemma doSLMStore_depth1:
  assumes "doSLMStore hw strategy sa sb s = (xs, Inr s')"
    and "slmBuffers strategy = 1" "slmA strategy \<or> slmB strategy"
  obtains pre post where "xs = pre @ slmStoreBlock strategy sa sb @ post"
    "sync_only (waits_per_barrier strategy) pre" "sync_only (waits_per_barrier strategy) post"
proof -
  have "doSLMStore hw strategy sa sb = andThen (slm1x2xFencedBarrier hw strategy)
      (andThen (emit (slmStoreBlock strategy sa sb)) (kLoopBarrier strategy True Normal))"
    using assms(2,3) by (cases "slmA strategy") (simp_all add: doSLMStore_def)
  with assms(1) have e: "andThen (slm1x2xFencedBarrier hw strategy)
      (andThen (emit (slmStoreBlock strategy sa sb)) (kLoopBarrier strategy True Normal)) s
      = (xs, Inr s')"
    by simp
  from e obtain pre t1 r where a: "slm1x2xFencedBarrier hw strategy s = (pre, Inr t1)"
    and b: "andThen (emit (slmStoreBlock strategy sa sb)) (kLoopBarrier strategy True Normal) t1
            = (r, Inr s')"
    and c: "xs = pre @ r"
    by (rule andThen_Inr)
  from b obtain st t2 post where d: "emit (slmStoreBlock strategy sa sb) t1 = (st, Inr t2)"
    and f: "kLoopBarrier strategy True Normal t2 = (post, Inr s')" and g: "r = st @ post"
    by (rule andThen_Inr)
  from d have st: "st = slmStoreBlock strategy sa sb" by (simp add: emit_Inr)
  show ?thesis
  proof (rule that [of pre post])
    show "xs = pre @ slmStoreBlock strategy sa sb @ post" using c g st by simp
    show "sync_only (waits_per_barrier strategy) pre" using a by (rule slm1x2xFencedBarrier_sync)
    show "sync_only (waits_per_barrier strategy) post" using f by (rule kLoopBarrier_Normal_sync)
  qed
qed

lemma slmStoreBlock_split:
  assumes "uses_slm strategy x"
  obtains a b where "slmStoreBlock strategy sa sb = a @ StoreMatrix x # b"
    "StoreMatrix x \<notin> set a" "StoreMatrix x \<notin> set b" "barrier_waits a = 0" "barrier_waits b = 0"
proof (cases x)
  case OpA
  then show ?thesis
    using assms that [of "[]" "(if slmB strategy then [StoreMatrix OpB] else []) @
     (if sa then [AccumulateSum OpA] else []) @ (if sb then [AccumulateSum OpB] else [])"]
    by (auto simp: slmStoreBlock_def uses_slm_def barrier_waits_def)
next
  case OpB
  then show ?thesis
    using assms that [of "(if slmA strategy then [StoreMatrix OpA] else [])" "
     (if sa then [AccumulateSum OpA] else []) @ (if sb then [AccumulateSum OpB] else [])"]
    by (auto simp: slmStoreBlock_def uses_slm_def barrier_waits_def)
qed

lemma between_stores_shape:
  assumes "StoreMatrix x \<notin> set u" "StoreMatrix x \<notin> set v"
  shows "between_stores x (u @ StoreMatrix x # v @ StoreMatrix x # w) = v"
    and "before_store x (u @ StoreMatrix x # r) = u"
proof -
  have pu: "\<And>i. i \<in> set u \<Longrightarrow> i \<noteq> StoreMatrix x" using assms(1) by blast
  have pv: "\<And>i. i \<in> set v \<Longrightarrow> i \<noteq> StoreMatrix x" using assms(2) by blast
  have "dropWhile (\<lambda>i. i \<noteq> StoreMatrix x) (u @ StoreMatrix x # v @ StoreMatrix x # w)
        = StoreMatrix x # v @ StoreMatrix x # w"
    using pu by (simp add: dropWhile_append2)
  moreover have "takeWhile (\<lambda>i. i \<noteq> StoreMatrix x) (v @ StoreMatrix x # w) = v"
    using pv by (simp add: takeWhile_append2)
  ultimately show "between_stores x (u @ StoreMatrix x # v @ StoreMatrix x # w) = v"
    by (simp add: between_stores_def)
  show "before_store x (u @ StoreMatrix x # r) = u"
    using pu by (simp add: before_store_def takeWhile_append2)
qed

lemma barrier_waits_append [simp]: "barrier_waits (xs @ ys) = barrier_waits xs + barrier_waits ys"
  by (simp add: barrier_waits_def)

lemma kLoopBarrier_Wait_sync:
  assumes "kLoopBarrier strategy False Wait s = (xs, Inr s')"
  shows "sync_only (waits_per_barrier strategy) xs"
proof (cases "\<not> nbM strategy \<and> \<not> nbN strategy")
  case True
  with assms have "emit [BarrierWait] s = (xs, Inr s')"
    by (simp add: kLoopBarrier_def gen_if_simps andThen_emit_Nil)
  then show ?thesis
    using True by (simp add: emit_Inr sync_only_def barrier_waits_def waits_per_barrier_def)
next
  case False
  with assms have "andThen (gen_if (nbM strategy) (emit [SyncBar BarrierM]))
        (gen_if (nbN strategy) (emit [SyncBar BarrierN])) s = (xs, Inr s')"
    by (simp add: kLoopBarrier_def gen_if_simps andThen_emit_Nil)
  then have "xs = (if nbM strategy then [SyncBar BarrierM] else [])
             @ (if nbN strategy then [SyncBar BarrierN] else [])"
    by (rule andThen_Inr) (simp add: gen_if_emit_Inr)
  then show ?thesis
    using False by (auto simp: sync_only_def barrier_waits_def waits_per_barrier_def)
qed

lemma kLoopBarrier_Signal_sync:
  assumes "kLoopBarrier strategy False Signal s = (xs, Inr s')"
  shows "sync_only 0 xs"
proof (cases "\<not> nbM strategy \<and> \<not> nbN strategy")
  case True
  with assms have "kLoopBarrier_signal_unnamed False s = (xs, Inr s')"
    by (simp add: kLoopBarrier_def gen_if_simps andThen_emit_Nil)
  then show ?thesis by (rule signal_unnamed_sync)
next
  case False
  with assms have "andThen (gen_if False slmFenceWait)
        (andThen (gen_if (nbM strategy) (emit [BarrierMsg BarrierM]))
           (gen_if (nbN strategy) (emit [BarrierMsg BarrierN]))) s = (xs, Inr s')"
    by (simp add: kLoopBarrier_def gen_if_simps andThen_emit_Nil)
  then show ?thesis by (rule named_signal_sync)
qed

lemma doPeriodicBarrier_sync:
  assumes "doPeriodicBarrier strategy locals s = (xs, Inr s')"
  shows "sync_only (if curPhase locals = PhaseMainLoop then waits_per_barrier strategy else 0) xs"
proof (cases "curPhase locals = PhaseMainLoop")
  case False
  with assms have "xs = []" by (simp add: doPeriodicBarrier_def gen_if_simps emit_Inr)
  then show ?thesis using False by (simp add: sync_only_def barrier_waits_def)
next
  case main: True
  show ?thesis
  proof (cases "splitBarrier strategy")
    case False
    with assms main have "kLoopBarrier strategy False Normal s = (xs, Inr s')"
      by (simp add: doPeriodicBarrier_def gen_if_simps)
    then show ?thesis using main kLoopBarrier_Normal_sync by simp
  next
    case True
    with assms main have "andThen (kLoopBarrier strategy False Wait)
        (kLoopBarrier strategy False Signal) s = (xs, Inr s')"
      by (simp add: doPeriodicBarrier_def gen_if_simps)
    then obtain x1 t1 x2 where
      "kLoopBarrier strategy False Wait s = (x1, Inr t1)"
      "kLoopBarrier strategy False Signal t1 = (x2, Inr s')" "xs = x1 @ x2"
      by (rule andThen_Inr)
    then show ?thesis
      using main kLoopBarrier_Wait_sync [of strategy s x1 t1]
        kLoopBarrier_Signal_sync [of strategy t1 x2 s']
      by (simp add: sync_only_def)
  qed
qed

text \<open>
  Claim C6, as stated, fails: at one SLM buffer, two barriers, not one, lie between the two
  stores to the same slot of two consecutive iterations.
\<close>

theorem slm_store_depth1_barriers_counterexample:
  "between_stores OpA (fst (andThen (doSLMStore XeHP strategy_slm_ex False False)
      (doSLMStore XeHP strategy_slm_ex False False) state_ex))
     = [StoreMatrix OpB, SLMFence, FenceWait, BarrierMsg BarrierUnnamed, BarrierWait,
        BarrierMsg BarrierUnnamed, BarrierWait]
   \<and> barrier_waits (between_stores OpA (fst (andThen (doSLMStore XeHP strategy_slm_ex False False)
      (doSLMStore XeHP strategy_slm_ex False False) state_ex))) = 2"
  by code_simp

text \<open>
  Claim C6, amended. At staging-buffer depth 1 a barrier is emitted before every overwrite of
  the single buffer: each \<^verbatim>\<open>doSLMStore\<close> emits one full barrier before its stores and a fenced
  one after them. For two consecutive iterations that store to and then reuse the same slot,
  the barriers in the emitted stream between the two stores to that slot are these two, the
  fenced barrier that follows the first store and the barrier that precedes the second,
  together with the barriers of whatever is emitted between the two \<^verbatim>\<open>doSLMStore\<close> (which
  holds no store to the slot; nothing throws): exactly two when that emits no barrier, and
  one more for a periodic barrier of the MainLoop phase (\<^verbatim>\<open>barrierFreq > 0\<close>). (A full barrier
  is one \<^verbatim>\<open>barrierwait\<close>, or one \<^verbatim>\<open>sync.bar\<close> for each named barrier in use.)
\<close>

theorem slm_store_depth1_barriers:
  assumes "slmBuffers strategy = 1" "uses_slm strategy x"
    and "doSLMStore hw strategy slmASums slmBSums state = (xs1, Inr state1)"
    and "mid state1 = (ys, Inr state2)"
    and "doSLMStore hw strategy slmASums slmBSums state2 = (xs2, Inr state3)"
    and "StoreMatrix x \<notin> set ys"
  shows "barrier_waits (before_store x (xs1 @ ys @ xs2)) = waits_per_barrier strategy
       \<and> barrier_waits (between_stores x (xs1 @ ys @ xs2))
           = 2 * waits_per_barrier strategy + barrier_waits ys
       \<and> 1 \<le> waits_per_barrier strategy
       \<and> (mid = doPeriodicBarrier strategy locals
            \<longrightarrow> barrier_waits ys
                  = (if curPhase locals = PhaseMainLoop then waits_per_barrier strategy else 0))"
proof -
  have slm: "slmA strategy \<or> slmB strategy"
    using assms(2) by (cases x) (simp_all add: uses_slm_def)
  from assms(3) assms(1) slm obtain pre1 post1 where
    p1: "xs1 = pre1 @ slmStoreBlock strategy slmASums slmBSums @ post1"
    "sync_only (waits_per_barrier strategy) pre1" "sync_only (waits_per_barrier strategy) post1"
    by (rule doSLMStore_depth1)
  from assms(5) assms(1) slm obtain pre2 post2 where
    p2: "xs2 = pre2 @ slmStoreBlock strategy slmASums slmBSums @ post2"
    "sync_only (waits_per_barrier strategy) pre2" "sync_only (waits_per_barrier strategy) post2"
    by (rule doSLMStore_depth1)
  from assms(2) obtain a b where
    ab: "slmStoreBlock strategy slmASums slmBSums = a @ StoreMatrix x # b"
    "StoreMatrix x \<notin> set a" "StoreMatrix x \<notin> set b" "barrier_waits a = 0" "barrier_waits b = 0"
    by (rule slmStoreBlock_split)
  have shape: "xs1 @ ys @ xs2
      = (pre1 @ a) @ StoreMatrix x # (b @ post1 @ ys @ pre2 @ a) @ StoreMatrix x # (b @ post2)"
    using p1(1) p2(1) ab(1) by simp
  have u: "StoreMatrix x \<notin> set (pre1 @ a)"
    using p1(2) ab(2) by (simp add: sync_only_def)
  have v: "StoreMatrix x \<notin> set (b @ post1 @ ys @ pre2 @ a)"
    using p1(3) p2(2) ab(2,3) assms(6) by (simp add: sync_only_def)
  have bt: "between_stores x (xs1 @ ys @ xs2) = b @ post1 @ ys @ pre2 @ a"
    unfolding shape by (rule between_stores_shape(1) [OF u v])
  have bf: "before_store x (xs1 @ ys @ xs2) = pre1 @ a"
    unfolding shape by (rule between_stores_shape(2) [OF u u])
  have pb: "barrier_waits ys
            = (if curPhase locals = PhaseMainLoop then waits_per_barrier strategy else 0)"
    if "mid = doPeriodicBarrier strategy locals"
    using doPeriodicBarrier_sync [of strategy locals state1 ys state2] assms(4) that
    by (simp add: sync_only_def)
  have w: "1 \<le> waits_per_barrier strategy" by (simp add: waits_per_barrier_def)
  have c1: "barrier_waits (before_store x (xs1 @ ys @ xs2)) = waits_per_barrier strategy"
    using p1(2) ab(4) by (simp add: bf sync_only_def)
  have c2: "barrier_waits (between_stores x (xs1 @ ys @ xs2))
           = 2 * waits_per_barrier strategy + barrier_waits ys"
    using p1(3) p2(2) ab(4,5) by (simp add: bt sync_only_def)
  show ?thesis using c1 c2 w pb by blast
qed

text \<open>Two consecutive SLM stores of the example with both operands in one SLM buffer, with
  nothing between them and with the periodic barrier of a MainLoop block between them.\<close>

lemma first_store_ex_run:
  "doSLMStore XeHP strategy_slm_ex False False state_ex = (first_store_ex, Inr state_barrier_ex)"
  "doSLMStore XeHP strategy_slm_pb_ex False False state_ex = (first_store_ex, Inr state_barrier_ex)"
  by code_simp+

lemma next_store_ex_run:
  "doSLMStore XeHP strategy_slm_ex False False state_barrier_ex
     = (next_store_ex, Inr state_barrier_ex)"
  "doSLMStore XeHP strategy_slm_pb_ex False False state_barrier_ex
     = (next_store_ex, Inr state_barrier_ex)"
  by code_simp+

lemma periodic_barrier_ex_run:
  "doPeriodicBarrier strategy_slm_pb_ex (locals_ex\<lparr>curPhase := PhaseMainLoop\<rparr>) state_barrier_ex
     = ([BarrierMsg BarrierUnnamed, BarrierWait], Inr state_barrier_ex)"
  by code_simp

theorem slm_store_depth1_barriers_witness:
  "slmBuffers strategy_slm_ex = 1 \<and> uses_slm strategy_slm_ex OpB
   \<and> barrier_waits (before_store OpB (first_store_ex @ [] @ next_store_ex)) = 1
   \<and> barrier_waits (between_stores OpB (first_store_ex @ [] @ next_store_ex)) = 2
   \<and> barrier_waits (between_stores OpB
        (first_store_ex @ [BarrierMsg BarrierUnnamed, BarrierWait] @ next_store_ex)) = 3"
proof -
  have h: "slmBuffers strategy_slm_ex = 1" "uses_slm strategy_slm_ex OpB"
    "slmBuffers strategy_slm_pb_ex = 1" "uses_slm strategy_slm_pb_ex OpB"
    by (simp_all add: strategy_slm_pb_ex_def strategy_slm_ex_def strategy_ex_def uses_slm_def)
  have w: "waits_per_barrier strategy_slm_ex = 1" "waits_per_barrier strategy_slm_pb_ex = 1"
    by (simp_all add: waits_per_barrier_def nbM_def nbN_def strategy_slm_pb_ex_def
        strategy_slm_ex_def strategy_ex_def)
  have e: "emit [] state_barrier_ex = ([], Inr state_barrier_ex)" by (simp add: emit_def)
  have n: "StoreMatrix OpB \<notin> set []"
    "StoreMatrix OpB \<notin> set [BarrierMsg BarrierUnnamed, BarrierWait]"
    by simp_all
  show ?thesis
    using h w
      slm_store_depth1_barriers [where mid = "emit []" and locals = locals_ex,
        OF h(1,2) first_store_ex_run(1) e next_store_ex_run(1) n(1)]
      slm_store_depth1_barriers [where
        mid = "doPeriodicBarrier strategy_slm_pb_ex (locals_ex\<lparr>curPhase := PhaseMainLoop\<rparr>)"
        and locals = "locals_ex\<lparr>curPhase := PhaseMainLoop\<rparr>",
        OF h(3,4) first_store_ex_run(2) periodic_barrier_ex_run next_store_ex_run(2) n(2)]
    by (simp add: barrier_waits_def)
qed

subsection \<open>Entering the short loop\<close>

lemma andThen_InrD:
  "andThen f g s = (xs, Inr s') \<Longrightarrow>
     \<exists>ys zs s1. f s = (ys, Inr s1) \<and> g s1 = (zs, Inr s') \<and> xs = ys @ zs"
  by (auto simp: andThen_def split: prod.splits sum.splits)

lemma andThen_last:
  assumes "andThen f g s = (xs, Inr s')"
  shows "\<exists>t ys. g t = (ys, Inr s')"
  using andThen_InrD [OF assms] by blast

lemma shortLoop_restore_state:
  assumes "shortLoop_restore ext strategy remaskA remaskB sameBits statePreLoop state = (xs, Inr state')"
  shows "state' = statePreLoop"
proof -
  from assms obtain t1 x1 where
    "andThen (gen_if (prefetchABL3 strategy \<noteq> 0) (gemmInitL3Prefetch ext))
          (andThen
             (\<lambda>state. ([], Inr (state\<lparr>remActiveA := False, remActiveB := False,
                                      remActiveSLM := False\<rparr>)))
             (andThen (resetForNewLoop ext remaskA remaskB sameBits)
                (\<lambda>state. ([], Inr statePreLoop)))) t1 = (x1, Inr state')"
    unfolding shortLoop_restore_def using andThen_last by blast
  then obtain t2 x2 where
    "andThen
             (\<lambda>state. ([], Inr (state\<lparr>remActiveA := False, remActiveB := False,
                                      remActiveSLM := False\<rparr>)))
             (andThen (resetForNewLoop ext remaskA remaskB sameBits)
                (\<lambda>state. ([], Inr statePreLoop))) t2 = (x2, Inr state')"
    using andThen_last by blast
  then obtain t3 x3 where
    "andThen (resetForNewLoop ext remaskA remaskB sameBits)
                (\<lambda>state. ([], Inr statePreLoop)) t3 = (x3, Inr state')"
    using andThen_last by blast
  then obtain t4 x4 where "(\<lambda>state. ([], Inr statePreLoop)) t4 = (x4, Inr state')"
    using andThen_last by blast
  then show ?thesis by simp
qed

lemma alloc_if_state:
  assumes "alloc_if b s = Inr (r, s')"
  shows "s' = s\<lparr>ra_free := drop (if b then 1 else 0) (ra_free s)\<rparr>
       \<and> (if b then 1 else 0) \<le> length (ra_free s)"
  using assms by (cases "ra_free s") (auto simp: alloc_if_def alloc_sub_def split: if_splits)

lemma kLoop_peel_alloc_state:
  assumes "kLoop_peel_alloc strategy peelLoops s = Inr (regs, s')"
  shows "s' = s\<lparr>ra_free := drop (peel_count strategy peelLoops s) (ra_free s)\<rparr>
       \<and> peel_count strategy peelLoops s \<le> length (ra_free s)"
proof -
  let ?b1 = "barrierSubloop strategy s" and ?b2 = "prefetchABL3 strategy \<noteq> 0"
    and ?b3 = "prefetchCPeelLoops strategy peelLoops > 0"
  from assms obtain r1 s1 r2 s2 r3 where
    a1: "alloc_if ?b1 s = Inr (r1, s1)" and a2: "alloc_if ?b2 s1 = Inr (r2, s2)"
    and a3: "alloc_if ?b3 s2 = Inr (r3, s')"
    by (auto simp: kLoop_peel_alloc_def split: sum.splits prod.splits)
  note e1 = alloc_if_state [OF a1] and e2 = alloc_if_state [OF a2] and e3 = alloc_if_state [OF a3]
  have f1: "ra_free s1 = drop (if ?b1 then 1 else 0) (ra_free s)" using e1 by simp
  have f2: "ra_free s2 = drop (if ?b2 then 1 else 0) (ra_free s1)" using e2 by simp
  have "s' = s\<lparr>ra_free := drop (if ?b3 then 1 else 0) (ra_free s2)\<rparr>"
    using e1 e2 e3 by simp
  moreover have "drop (if ?b3 then 1 else 0) (ra_free s2)
               = drop (peel_count strategy peelLoops s) (ra_free s)"
    unfolding f2 f1 peel_count_def by (simp add: add.commute add.left_commute)
  moreover have "peel_count strategy peelLoops s \<le> length (ra_free s)"
    using e1 e2 e3 unfolding f2 f1 peel_count_def by (simp split: if_splits)
  ultimately show ?thesis by simp
qed

lemma drop_ra_free_eq:
  assumes "n \<le> length (ra_free s)"
  shows "(s\<lparr>ra_free := drop n (ra_free s)\<rparr> = s) = (n = 0)"
proof
  assume "s\<lparr>ra_free := drop n (ra_free s)\<rparr> = s"
  then have "ra_free (s\<lparr>ra_free := drop n (ra_free s)\<rparr>) = ra_free s" by simp
  then have "length (drop n (ra_free s)) = length (ra_free s)" by simp
  then show "n = 0" using assms by simp
next
  assume "n = 0"
  then show "s\<lparr>ra_free := drop n (ra_free s)\<rparr> = s" by simp
qed

text \<open>
  Claim C5, as stated, fails: with a split periodic barrier and \<^verbatim>\<open>splitBarrierAlways\<close> set,
  the build state with which the short loop starts is not the snapshot. \<^verbatim>\<open>kLoop\<close> takes the
  snapshot with no barrier header and the registers 11 and 12 free, and goes on to the main path
  from that very state; on entering ShortLoop the state is assigned from the snapshot and then
  the barrier signal is issued, which allocates register 11 as the barrier header.
\<close>

theorem shortLoop_restores_preLoop_state_counterexample:
  "kLoop_snapshot problem_ex strategy_split_ex (state_ex\<lparr>splitBarrierAlways := True\<rparr>) 4 False
     False (Inr 4) 0
     = ([Mov_K_kInput, ZeroMatrix (C_regs 0)],
        Inr (state_preloop_ex\<lparr>splitBarrierAlways := True\<rparr>,
             \<lparr>outerK = None, l3PFPeelK = None, pfCPeelK = None\<rparr>,
             state_preloop_ex\<lparr>splitBarrierAlways := True\<rparr>))
   \<and> notifyPhase_ShortLoop externals_ex strategy_split_ex True False False
        (state_preloop_ex\<lparr>splitBarrierAlways := True\<rparr>) (locals_ex, state_mid_ex)
     = ([BarrierHeader, BarrierMsg BarrierUnnamed],
        Inr (locals_ex\<lparr>curPhase := PhaseShortLoop, haveA_lastRSWA := False,
                       didForceActivateRemA := False\<rparr>,
             state_preloop_ex\<lparr>splitBarrierAlways := True, barrierHeader := Some 11,
               barrierReady := True, ra_free := [12]\<rparr>))
   \<and> state_preloop_ex\<lparr>splitBarrierAlways := True, barrierHeader := Some 11,
        barrierReady := True, ra_free := [12]\<rparr> \<noteq> state_preloop_ex\<lparr>splitBarrierAlways := True\<rparr>"
  by code_simp

text \<open>
  Claim C5, amended. When \<^verbatim>\<open>kLoop\<close> has reached the loop and the callback completes without
  an exception: on entering the ShortLoop phase the build state is assigned from the
  snapshot \<^verbatim>\<open>statePreLoop\<close> that \<^verbatim>\<open>kLoop\<close> took before loop emission began: whatever the build
  state had become, after the clearing of the remainder-active flags and \<^verbatim>\<open>resetForNewLoop\<close>
  (kSLM storage, \<^verbatim>\<open>lastThresh\<close>, barrier header, remask teardown) the assignment leaves
  exactly the snapshot, and the locals outside \<^verbatim>\<open>state\<close> (\<^verbatim>\<open>haveA_lastRSWA\<close> and the
  forced-remainder flags) are back at \<^verbatim>\<open>false\<close>. The short loop starts from the snapshot,
  except that when \<^verbatim>\<open>splitBarrierAlways\<close> holds with a split periodic barrier the barrier signal
  is issued on it first. \<^verbatim>\<open>kLoop\<close> itself goes on from the snapshot by allocating the registers
  \<^verbatim>\<open>outerK\<close>, \<^verbatim>\<open>l3PFPeelK\<close> and \<^verbatim>\<open>pfCPeelK\<close> (lines 1316--1332): the state after these
  allocations agrees with the snapshot in every field but the register allocator, and is
  identical to it exactly when none of the three registers is needed.
\<close>

theorem shortLoop_restores_preLoop_state:
  assumes "kLoop_snapshot problem strategy state0 minOPCount needsRemaskA needsRemaskB analysis
             peelLoops = (xs0, Inr (statePreLoop, regs, stateMain))"
    and "notifyPhase_ShortLoop ext strategy remaskA remaskB sameBits statePreLoop (locals, state)
           = (xs, Inr (locals', state'))"
  shows "(\<exists>ys zs. shortLoop_restore ext strategy remaskA remaskB sameBits statePreLoop state
                     = (ys, Inr statePreLoop)
            \<and> gen_if (splitBarrierAlways statePreLoop \<and> barrierFreq strategy > 0 \<and> splitBarrier strategy)
                 (kLoopBarrier strategy False Signal) statePreLoop = (zs, Inr state')
            \<and> xs = ys @ zs)
       \<and> (\<not> (splitBarrierAlways statePreLoop \<and> barrierFreq strategy > 0 \<and> splitBarrier strategy)
            \<longrightarrow> state' = statePreLoop)
       \<and> curPhase locals' = PhaseShortLoop \<and> \<not> haveA_lastRSWA locals'
       \<and> \<not> didForceActivateRemA locals' \<and> \<not> didForceActivateRemB locals'
       \<and> snd (kLoop_prefix problem strategy state0 minOPCount needsRemaskA needsRemaskB analysis)
           = Inr statePreLoop
       \<and> stateMain = statePreLoop\<lparr>ra_free :=
           drop (peel_count strategy peelLoops statePreLoop) (ra_free statePreLoop)\<rparr>
       \<and> peel_count strategy peelLoops statePreLoop \<le> length (ra_free statePreLoop)
       \<and> (stateMain = statePreLoop \<longleftrightarrow> peel_count strategy peelLoops statePreLoop = 0)"
proof -
  let ?sig = "\<lambda>state. gen_if (splitBarrierAlways state \<and> barrierFreq strategy > 0
                                \<and> splitBarrier strategy)
                         (kLoopBarrier strategy False Signal) state"
  obtain zs0 r where run: "andThen (shortLoop_restore ext strategy remaskA remaskB sameBits statePreLoop)
      ?sig state = (zs0, r)"
    by (cases "andThen (shortLoop_restore ext strategy remaskA remaskB sameBits statePreLoop) ?sig state")
  with assms(2) have r: "r = Inr state'" and x: "zs0 = xs"
    and l: "locals' = resetForNewLoop_locals (locals\<lparr>curPhase := PhaseShortLoop\<rparr>)"
    by (auto simp: notifyPhase_ShortLoop_def split: sum.splits)
  from run r x have "andThen (shortLoop_restore ext strategy remaskA remaskB sameBits statePreLoop)
      ?sig state = (xs, Inr state')" by simp
  from andThen_InrD [OF this] obtain ys t zs where
    a: "shortLoop_restore ext strategy remaskA remaskB sameBits statePreLoop state = (ys, Inr t)"
    and b: "?sig t = (zs, Inr state')" and c: "xs = ys @ zs"
    by blast
  have t: "t = statePreLoop" using a by (rule shortLoop_restore_state)
  have n: "state' = statePreLoop"
    if "\<not> (splitBarrierAlways statePreLoop \<and> barrierFreq strategy > 0 \<and> splitBarrier strategy)"
    using that b t by (auto simp: gen_if_def emit_def)
  have e: "\<exists>ys zs. shortLoop_restore ext strategy remaskA remaskB sameBits statePreLoop state
                     = (ys, Inr statePreLoop)
            \<and> gen_if (splitBarrierAlways statePreLoop \<and> barrierFreq strategy > 0 \<and> splitBarrier strategy)
                 (kLoopBarrier strategy False Signal) statePreLoop = (zs, Inr state')
            \<and> xs = ys @ zs"
    using a b c t by blast
  obtain xs1 r1 where kp: "kLoop_prefix problem strategy state0 minOPCount needsRemaskA
        needsRemaskB analysis = (xs1, r1)"
    by (cases "kLoop_prefix problem strategy state0 minOPCount needsRemaskA needsRemaskB analysis")
  have pq: "r1 = Inr statePreLoop
      \<and> kLoop_peel_alloc strategy peelLoops statePreLoop = Inr (regs, stateMain)"
  proof (cases r1)
    case (Inl err)
    then show ?thesis using assms(1) kp by (simp add: kLoop_snapshot_def)
  next
    case (Inr s1)
    show ?thesis
    proof (cases "kLoop_peel_alloc strategy peelLoops s1")
      case (Inl err)
      then show ?thesis using assms(1) kp Inr by (simp add: kLoop_snapshot_def Let_def)
    next
      case alloc: (Inr res)
      obtain regs1 s2 where res: "res = (regs1, s2)" by (cases res)
      show ?thesis using assms(1) kp Inr alloc res by (simp add: kLoop_snapshot_def Let_def)
    qed
  qed
  have p: "snd (kLoop_prefix problem strategy state0 minOPCount needsRemaskA
        needsRemaskB analysis) = Inr statePreLoop"
    using kp pq by simp
  have q: "kLoop_peel_alloc strategy peelLoops statePreLoop = Inr (regs, stateMain)"
    using pq by simp
  have m1: "stateMain = statePreLoop\<lparr>ra_free :=
           drop (peel_count strategy peelLoops statePreLoop) (ra_free statePreLoop)\<rparr>"
    and m2: "peel_count strategy peelLoops statePreLoop \<le> length (ra_free statePreLoop)"
    using kLoop_peel_alloc_state [OF q] by simp_all
  have i: "(stateMain = statePreLoop) = (peel_count strategy peelLoops statePreLoop = 0)"
    unfolding m1 using m2 by (rule drop_ra_free_eq)
  have l1: "curPhase locals' = PhaseShortLoop" and l2: "\<not> haveA_lastRSWA locals'"
    and l3: "\<not> didForceActivateRemA locals'" and l4: "\<not> didForceActivateRemB locals'"
    using l by (simp_all add: resetForNewLoop_locals_def)
  have n': "\<not> (splitBarrierAlways statePreLoop \<and> barrierFreq strategy > 0 \<and> splitBarrier strategy)
            \<longrightarrow> state' = statePreLoop"
    using n by (rule impI)
  show ?thesis
    by (intro conjI) (rule e n' l1 l2 l3 l4 p m1 m2 i)+
qed

text \<open>With an L3 prefetch the main path starts with \<^verbatim>\<open>l3PFPeelK\<close> allocated in register 11;
  from a build state in the middle of the main path (remainder active, barrier header and kSLM
  storage allocated, no free register) the callback gives back the snapshot, in which
  register 11 is free.\<close>

lemma snapshot_ex_run:
  "kLoop_snapshot problem_ex (strategy_ex\<lparr>prefetchABL3 := 1\<rparr>) state_ex 4 False False (Inr 4) 0
     = ([Mov_K_kInput, ZeroMatrix (C_regs 0)],
        Inr (state_preloop_ex, \<lparr>outerK = None, l3PFPeelK = Some 11, pfCPeelK = None\<rparr>,
             state_preloop_ex\<lparr>ra_free := [12]\<rparr>))"
  by code_simp

lemma shortLoop_ex_run:
  "notifyPhase_ShortLoop externals_ex (strategy_ex\<lparr>prefetchABL3 := 1\<rparr>) True False False
      state_preloop_ex (locals_ex, state_mid_ex)
     = ([InitL3Prefetch], Inr (locals_ex\<lparr>curPhase := PhaseShortLoop, haveA_lastRSWA := False,
                             didForceActivateRemA := False\<rparr>, state_preloop_ex))"
  by code_simp

theorem shortLoop_restores_preLoop_state_witness:
  "peel_count (strategy_ex\<lparr>prefetchABL3 := 1\<rparr>) 0 state_preloop_ex = 1
   \<and> state_preloop_ex\<lparr>ra_free := [12]\<rparr> \<noteq> state_preloop_ex
   \<and> snd (kLoop_prefix problem_ex (strategy_ex\<lparr>prefetchABL3 := 1\<rparr>) state_ex 4 False False (Inr 4))
       = Inr state_preloop_ex
   \<and> remActiveA state_mid_ex \<and> \<not> remActiveA state_preloop_ex
   \<and> barrierHeader state_mid_ex = Some 12 \<and> barrierHeader state_preloop_ex = None"
proof -
  have c: "peel_count (strategy_ex\<lparr>prefetchABL3 := 1\<rparr>) 0 state_preloop_ex = 1"
    by (simp add: peel_count_def barrierSubloop_def prefetchCPeelLoops_def strategy_ex_def)
  show ?thesis
    using c shortLoop_restores_preLoop_state [OF snapshot_ex_run shortLoop_ex_run]
    by (simp add: state_mid_ex_def state_preloop_ex_def state_ex_def)
qed

subsection \<open>The loop-counter decrement\<close>











subsection \<open>Coverage of the outer products\<close>




























end
